(* ===== verification/Prelude.thy ===== *)
theory Prelude
  imports Main "HOL-Library.Sublist"
begin

text \<open>
  Shared vocabulary of the SafeZonePH models: the clock and identifier types, the
  JavaScript string primitives the components call (\<open>String.prototype.trim\<close>,
  \<open>toLowerCase\<close>, \<open>includes\<close>, \<open>Number.prototype.toString\<close>), the theorem
  collections the component theories fill, and generic list lemmas they share.
  Strings are byte strings (\<open>char list\<close>, UTF-8): the JavaScript primitives are
  modelled on their ASCII behaviour, which is what the components rely on.
\<close>

section \<open>Theorem collections\<close>

named_theorems op_defs "unfolding rules of the modelled operations"
named_theorems inv_simps "rules that decide the invariants on concrete states"

section \<open>Types of the model\<close>

type_synonym ms = nat \<comment> \<open>a value of \<open>Date.now()\<close>: milliseconds since the epoch\<close>
type_synonym uid = string \<comment> \<open>user, buddy and conversation identifiers\<close>

section \<open>\<open>String.prototype.trim\<close>\<close>

definition is_ws :: "char \<Rightarrow> bool" where
  "is_ws c \<longleftrightarrow> of_char c \<in> {9, 10, 11, 12, 13, 32 :: nat}"

definition trim :: "string \<Rightarrow> string" where
  "trim s = rev (dropWhile is_ws (rev (dropWhile is_ws s)))"

section \<open>\<open>String.prototype.toLowerCase\<close>\<close>

definition lower_char :: "char \<Rightarrow> char" where
  "lower_char c =
     (if of_char c \<in> {65..90 :: nat} then char_of (of_char c + 32 :: nat) else c)"

definition to_lower :: "string \<Rightarrow> string" where
  "to_lower s = map lower_char s"

section \<open>\<open>String.prototype.includes\<close>\<close>

text \<open>\<open>starts_with p s\<close>: \<open>p\<close> is a prefix of \<open>s\<close>; \<open>str_includes s p\<close> is the
  JavaScript call \<open>s.includes(p)\<close>, the left-to-right scan of \<open>s\<close>.\<close>

fun starts_with :: "'a list \<Rightarrow> 'a list \<Rightarrow> bool" where
  "starts_with [] s = True"
| "starts_with (c # p) [] = False"
| "starts_with (c # p) (d # s) = (c = d \<and> starts_with p s)"

fun str_includes :: "'a list \<Rightarrow> 'a list \<Rightarrow> bool" where
  "str_includes [] p = (p = [])"
| "str_includes (d # s) p = (starts_with p (d # s) \<or> str_includes s p)"

section \<open>\<open>Number.prototype.toString\<close> on naturals\<close>

fun string_of_nat :: "nat \<Rightarrow> string" where
  "string_of_nat n =
     (if n < 10 then [char_of (48 + n)]
      else string_of_nat (n div 10) @ [char_of (48 + n mod 10)])"

definition nat_of_string :: "string \<Rightarrow> nat" where
  "nat_of_string s = foldl (\<lambda>acc c. 10 * acc + (of_char c - 48)) 0 s"

declare string_of_nat.simps [simp del]

section \<open>Lemmas on the string primitives\<close>

lemma starts_with_iff [simp]: "starts_with p s \<longleftrightarrow> prefix p s"
  by (induction p s rule: starts_with.induct) auto

text \<open>The scan computes the library's (declarative) substring relation.\<close>

lemma includes_iff_sublist: "str_includes s p \<longleftrightarrow> sublist p s"
  by (induction s) (auto simp: sublist_Cons_right)

lemma includes_Nil [simp]: "str_includes s []"
  by (simp add: includes_iff_sublist)

lemma includes_self [simp]: "str_includes s s"
  by (simp add: includes_iff_sublist)

lemma includes_map:
  "str_includes s p \<Longrightarrow> str_includes (map f s) (map f p)"
  by (metis includes_iff_sublist map_append sublist_def)

lemma to_lower_includes:
  "str_includes s p \<Longrightarrow> str_includes (to_lower s) (to_lower p)"
  unfolding to_lower_def by (rule includes_map)

lemma lower_char_idem [simp]: "lower_char (lower_char c) = lower_char c"
  by (simp add: lower_char_def of_char_of)

lemma to_lower_idem [simp]: "to_lower (to_lower s) = to_lower s"
  by (simp add: to_lower_def comp_def)

lemma all_dropWhile_iff: "(\<forall>x \<in> set (dropWhile P s). P x) \<longleftrightarrow> (\<forall>x \<in> set s. P x)"
  by (induction s) auto

lemma trim_Nil_iff: "trim s = [] \<longleftrightarrow> (\<forall>c \<in> set s. is_ws c)"
  by (simp add: trim_def dropWhile_eq_Nil_conv all_dropWhile_iff)

lemma nat_of_string_snoc:
  "nat_of_string (s @ [c]) = 10 * nat_of_string s + (of_char c - 48)"
  by (simp add: nat_of_string_def)

lemma of_char_digit: "(d::nat) < 10 \<Longrightarrow> of_char (char_of (48 + d) :: char) = 48 + d"
  by (simp add: of_char_of)

text \<open>Round trip: reading back the decimal rendering gives the number.\<close>

lemma nat_of_string_of_nat [simp]: "nat_of_string (string_of_nat n) = n"
proof (induction n rule: string_of_nat.induct)
  case (1 n)
  show ?case
  proof (cases "n < 10")
    case True
    then show ?thesis
      by (simp add: string_of_nat.simps [of n] nat_of_string_def of_char_digit)
  next
    case False
    then have "nat_of_string (string_of_nat n)
        = 10 * nat_of_string (string_of_nat (n div 10)) + n mod 10"
      by (simp add: string_of_nat.simps [of n] nat_of_string_snoc of_char_digit)
    with "1" False show ?thesis by simp
  qed
qed

lemma string_of_nat_inj [simp]: "string_of_nat m = string_of_nat n \<longleftrightarrow> m = n"
  by (metis nat_of_string_of_nat)

lemma string_of_nat_not_Nil [simp]: "string_of_nat n \<noteq> []"
  by (subst string_of_nat.simps) simp

section \<open>Generic list lemmas\<close>

lemma sorted_snoc_iff: "sorted (xs @ [x]) \<longleftrightarrow> sorted xs \<and> (\<forall>y \<in> set xs. y \<le> x)"
  by (simp add: sorted_append)

lemma length_filter_map_le:
  "length (filter P (map f xs)) \<le> length xs"
  by (metis length_filter_le length_map)

lemma rev_dropWhile_rev_prefix: "prefix (rev (dropWhile P (rev t))) t"
proof -
  have "t = rev (dropWhile P (rev t)) @ rev (takeWhile P (rev t))"
    by (metis rev_append rev_rev_ident takeWhile_dropWhile_id)
  then show ?thesis by (metis prefixI)
qed

lemma dropWhile_idem [simp]: "dropWhile P (dropWhile P xs) = dropWhile P xs"
  by (induction xs) auto

lemma trim_Nil [simp]: "trim [] = []"
  by (simp add: trim_def)

lemma trim_idem [simp]: "trim (trim s) = trim s"
proof -
  define t where "t = dropWhile is_ws s"
  define u where "u = rev (dropWhile is_ws (rev t))"
  have "dropWhile is_ws u = u"
  proof (cases u)
    case (Cons x xs)
    from rev_dropWhile_rev_prefix [of is_ws t] have "prefix u t" by (simp add: u_def)
    with Cons obtain ys where "t = x # ys" by (auto simp: prefix_def)
    then have "\<not> is_ws x" using hd_dropWhile [of is_ws s] by (simp add: t_def)
    with Cons show ?thesis by simp
  qed simp
  then have "trim (trim s) = rev (dropWhile is_ws (rev u))" by (simp add: trim_def t_def u_def)
  also have "\<dots> = u" by (simp add: u_def)
  finally show ?thesis by (simp add: trim_def t_def u_def)
qed

end
