(* ===== verification/Data.thy ===== *)
theory Data
  imports Prelude
begin

text \<open>
  The shapes of the application's records, from \<open>src/types\<close> (imported by every page
  as \<open>'../types'\<close>; the file is not among the sources, so the fields are those the
  sources read and write). Timestamps are the millisecond values whose ISO rendering
  (\<open>toISOString\<close>) the code stores: the rendering is injective and monotone, so the
  order of timestamps is the order of the numbers. Fields the sources never read
  (avatars, ratings, notification titles) are left out, or kept abstract as a payload.
\<close>

record message =
  msg_id :: string
  senderId :: uid
  content :: string
  timestamp :: ms
  read :: bool

record conversation =
  conv_id :: uid
  participantId :: uid
  conv_messages :: "message list"
  lastMessageAt :: ms
  unreadCount :: nat

datatype buddy_status = Online | Away | Offline

record buddy =
  buddy_id :: uid
  name :: string
  status :: buddy_status
  location :: "string option"
  phone :: string
  skills :: "string list option"
  checkInCount :: nat

text \<open>The string values of a buddy's status, as the type declares them.\<close>

fun status_name :: "buddy_status \<Rightarrow> string" where
  "status_name Online = ''online''"
| "status_name Away = ''away''"
| "status_name Offline = ''offline''"

text \<open>A notification: the fields the context assigns (\<open>id\<close>, \<open>timestamp\<close>,
  \<open>isRead\<close>) and the caller's fields (category, title, message), which the context
  copies unchanged by the object spread, as one payload of type \<open>'p\<close>.\<close>

record 'p notification =
  nid :: string
  payload :: 'p
  ntimestamp :: ms
  isRead :: bool


section \<open>Scenario data\<close>

text \<open>Two buddies used by the scenarios of the page theories.\<close>

definition demo_maria :: buddy where
  "demo_maria = \<lparr>buddy_id = ''maria'', name = ''Maria'', status = Online, location = None,
                  phone = ''0917 000 0001'', skills = None, checkInCount = 3\<rparr>"

definition demo_jose :: buddy where
  "demo_jose = \<lparr>buddy_id = ''jose'', name = ''Jose'', status = Away, location = None,
                 phone = ''0917 000 0002'', skills = Some [''Cooking''], checkInCount = 0\<rparr>"

end
