(* ===== verification/Chat.thy ===== *)
theory Chat
  imports Data
begin

text \<open>
  The chat page, \<open>src/pages/ChatPage.tsx\<close>: the component state of \<open>ChatPage\<close>
  (its \<open>useState\<close> hooks), the signed-in user's id from \<open>useAuth\<close>, the static
  \<open>mockConversations\<close> and \<open>mockBuddies\<close>, the \<open>setTimeout\<close> callbacks that
  simulate replies, and the clock read by \<open>Date.now()\<close>. Each handler is one
  definition; \<open>chat_handle\<close> dispatches the page's events to them and
  \<open>chat_reach\<close> is the set of states a session can reach.
\<close>

section \<open>State\<close>

text \<open>A pending \<open>setTimeout\<close> callback of \<open>handleSendMessage\<close>: when it is due,
  and the participant id its closure captured from \<open>selectedConversation\<close>.\<close>

record timer =
  due :: ms
  reply_to :: uid

record chat_state =
  user :: "uid option"
  mockConversations :: "conversation list"
  mockBuddies :: "buddy list"
  searchQuery :: string
  selectedConversation :: "conversation option"
  newMessage :: string
  messages :: "message list"
  isMobileConversationOpen :: bool
  timers :: "timer list"
  clock :: ms

text \<open>The only exception a handler raises: \<open>user!.id\<close> on a signed-out user is a
  \<open>TypeError\<close>.\<close>

datatype chat_error = NullUser

definition chat_init :: "uid option \<Rightarrow> conversation list \<Rightarrow> buddy list \<Rightarrow> ms \<Rightarrow> chat_state" where
  "chat_init u cs bs t =
     \<lparr>user = u, mockConversations = cs, mockBuddies = bs, searchQuery = [],
      selectedConversation = None, newMessage = [], messages = [],
      isMobileConversationOpen = False, timers = [], clock = t\<rparr>"

section \<open>Conversation list\<close>

definition getBuddy :: "buddy list \<Rightarrow> uid \<Rightarrow> buddy option" where
  "getBuddy bs pid = find (\<lambda>b. buddy_id b = pid) bs"

definition filteredConversations :: "chat_state \<Rightarrow> conversation list" where
  "filteredConversations s =
     filter (\<lambda>conv. case getBuddy (mockBuddies s) (participantId conv) of
                      None \<Rightarrow> False
                    | Some b \<Rightarrow> str_includes (to_lower (name b)) (to_lower (searchQuery s)))
       (mockConversations s)"

section \<open>Handlers\<close>

definition setSearchQuery :: "string \<Rightarrow> chat_state \<Rightarrow> chat_state" where
  "setSearchQuery q s = s\<lparr>searchQuery := q\<rparr>"

definition setNewMessage :: "string \<Rightarrow> chat_state \<Rightarrow> chat_state" where
  "setNewMessage txt s = s\<lparr>newMessage := txt\<rparr>"

definition handleBack :: "chat_state \<Rightarrow> chat_state" where
  "handleBack s = s\<lparr>isMobileConversationOpen := False\<rparr>"

text \<open>The effect on \<open>[selectedConversation]\<close>: it reloads the view from the
  selected conversation. React runs it only when the selection changes.\<close>

definition sync_messages_effect :: "chat_state \<Rightarrow> chat_state" where
  "sync_messages_effect s =
     (case selectedConversation s of
        None \<Rightarrow> s
      | Some conv \<Rightarrow> s\<lparr>messages := conv_messages conv\<rparr>)"

definition handleSelectConversation :: "conversation \<Rightarrow> chat_state \<Rightarrow> chat_state" where
  "handleSelectConversation conv s =
     (let s' = s\<lparr>selectedConversation := Some conv, isMobileConversationOpen := True\<rparr>
      in if selectedConversation s = Some conv then s' else sync_messages_effect s')"

definition sent_message :: "uid \<Rightarrow> string \<Rightarrow> ms \<Rightarrow> message" where
  "sent_message u txt t =
     \<lparr>msg_id = ''msg-'' @ string_of_nat t, senderId = u, content = trim txt,
      timestamp = t, read = True\<rparr>"

definition handleSendMessage :: "chat_state \<Rightarrow> chat_error + chat_state" where
  "handleSendMessage s =
     (if trim (newMessage s) = [] then Inr s
      else case selectedConversation s of
        None \<Rightarrow> Inr s
      | Some conv \<Rightarrow>
          (case user s of
             None \<Rightarrow> Inl NullUser
           | Some u \<Rightarrow>
               Inr (s\<lparr>messages := messages s @ [sent_message u (newMessage s) (clock s)],
                      newMessage := [],
                      timers := timers s @ [\<lparr>due = clock s + 1500, reply_to = participantId conv\<rparr>]\<rparr>)))"

text \<open>The candidate replies, byte for byte: the two emoji of the source file are
  stored double-encoded (the UTF-8 bytes of \<open>\<dots>! \<close> followed by the characters
  U+00F0 U+0178 U+02DC U+0160, and U+00F0 U+0178 U+2019 U+00AA).\<close>

definition replies :: "string list" where
  "replies =
     [''Salamat sa message! '' @ [CHR 0xC3, CHR 0xB0, CHR 0xC5, CHR 0xB8, CHR 0xCB, CHR 0x9C, CHR 0xC5, CHR 0xA0],
      ''Noted po! I'll get back to you soon.'',
      ''Okay po, maraming salamat!'',
      ''That sounds good! Let me check.'',
      ''Ingat palagi! '' @ [CHR 0xC3, CHR 0xB0, CHR 0xC5, CHR 0xB8, CHR 0xE2, CHR 0x80, CHR 0x99, CHR 0xC2, CHR 0xAA],
      ''Sure, I can help with that.'',
      ''Naintindihan ko na po. Thank you!'']"

text \<open>\<open>k\<close> is the value of \<open>Math.floor(Math.random() * replies.length)\<close>; the step
  relation draws it below \<open>length replies\<close>.\<close>

definition getRandomReply :: "nat \<Rightarrow> string" where
  "getRandomReply k = replies ! k"

definition reply_message :: "uid \<Rightarrow> nat \<Rightarrow> ms \<Rightarrow> message" where
  "reply_message pid k t =
     \<lparr>msg_id = ''msg-'' @ string_of_nat t @ ''-reply'', senderId = pid,
      content = getRandomReply k, timestamp = t, read = False\<rparr>"

text \<open>The event loop runs the earliest pending callback once it is due (all have the
  same delay, so the earliest is the first scheduled); \<open>None\<close>: nothing is due.\<close>

definition fire_timer :: "nat \<Rightarrow> chat_state \<Rightarrow> chat_state option" where
  "fire_timer k s =
     (case timers s of
        [] \<Rightarrow> None
      | tm # rest \<Rightarrow>
          if due tm \<le> clock s
          then Some (s\<lparr>timers := rest,
                       messages := messages s @ [reply_message (reply_to tm) k (clock s)]\<rparr>)
          else None)"

definition advance_clock :: "nat \<Rightarrow> chat_state \<Rightarrow> chat_state" where
  "advance_clock d s = s\<lparr>clock := clock s + d\<rparr>"

text \<open>The right-hand pane: the selected conversation with its log and whether the
  send button is enabled (\<open>disabled={!newMessage.trim()}\<close>), or the empty state;
  on a narrow screen it is hidden while no conversation is open and none is
  selected.\<close>

datatype chat_pane = EmptyState | ConversationPane conversation "message list" bool

definition chat_pane :: "chat_state \<Rightarrow> chat_pane" where
  "chat_pane s =
     (case selectedConversation s of
        None \<Rightarrow> EmptyState
      | Some c \<Rightarrow> ConversationPane c (messages s) (trim (newMessage s) \<noteq> []))"

definition pane_hidden_on_mobile :: "chat_state \<Rightarrow> bool" where
  "pane_hidden_on_mobile s \<longleftrightarrow> \<not> isMobileConversationOpen s \<and> selectedConversation s = None"

section \<open>Events and runs\<close>

datatype chat_event =
    Search string | Select conversation | Type string | Send | Back | Tick nat | Fire nat

text \<open>An event is possible when the page offers it: a conversation is clicked in the
  filtered list, and a firing callback draws its reply index in range.\<close>

fun chat_enabled :: "chat_state \<Rightarrow> chat_event \<Rightarrow> bool" where
  "chat_enabled s (Select c) = (c \<in> set (filteredConversations s))"
| "chat_enabled s (Fire k) = (k < length replies)"
| "chat_enabled s e = True"

fun chat_handle :: "chat_state \<Rightarrow> chat_event \<Rightarrow> chat_error + chat_state" where
  "chat_handle s (Search q) = Inr (setSearchQuery q s)"
| "chat_handle s (Select c) = Inr (handleSelectConversation c s)"
| "chat_handle s (Type txt) = Inr (setNewMessage txt s)"
| "chat_handle s Send = handleSendMessage s"
| "chat_handle s Back = Inr (handleBack s)"
| "chat_handle s (Tick d) = Inr (advance_clock d s)"
| "chat_handle s (Fire k) = (case fire_timer k s of None \<Rightarrow> Inr s | Some s' \<Rightarrow> Inr s')"

text \<open>A thrown handler leaves the React state as it was and the page goes on.\<close>

definition chat_next :: "chat_state \<Rightarrow> chat_event \<Rightarrow> chat_state" where
  "chat_next s e = (case chat_handle s e of Inl _ \<Rightarrow> s | Inr s' \<Rightarrow> s')"

fun chat_run :: "chat_state \<Rightarrow> chat_event list \<Rightarrow> chat_state" where
  "chat_run s [] = s"
| "chat_run s (e # es) = chat_run (chat_next s e) es"

fun chat_run_enabled :: "chat_state \<Rightarrow> chat_event list \<Rightarrow> bool" where
  "chat_run_enabled s [] = True"
| "chat_run_enabled s (e # es) = (chat_enabled s e \<and> chat_run_enabled (chat_next s e) es)"

section \<open>Well-formed data and the invariant\<close>

definition chrono :: "message list \<Rightarrow> ms \<Rightarrow> bool" where
  "chrono xs t \<longleftrightarrow> sorted (map timestamp xs) \<and> (\<forall>m \<in> set xs. timestamp m \<le> t)"

text \<open>The message type of the specification: an identifier, and content that is
  non-empty text (here also without surrounding whitespace, as the page stores it).\<close>

definition message_wf :: "message \<Rightarrow> bool" where
  "message_wf m \<longleftrightarrow> msg_id m \<noteq> [] \<and> content m \<noteq> [] \<and> trim (content m) = content m"

definition mock_ok :: "conversation list \<Rightarrow> ms \<Rightarrow> bool" where
  "mock_ok cs t \<longleftrightarrow> (\<forall>c \<in> set cs. chrono (conv_messages c) t \<and> list_all message_wf (conv_messages c))"

definition chat_inv :: "chat_state \<Rightarrow> bool" where
  "chat_inv s \<longleftrightarrow>
     chrono (messages s) (clock s)
     \<and> list_all message_wf (messages s)
     \<and> mock_ok (mockConversations s) (clock s)
     \<and> sorted (map due (timers s))
     \<and> (\<forall>tm \<in> set (timers s). due tm \<le> clock s + 1500)
     \<and> (\<forall>c. selectedConversation s = Some c \<longrightarrow> c \<in> set (mockConversations s))"

inductive chat_reach :: "chat_state \<Rightarrow> bool" where
  init: "mock_ok cs t \<Longrightarrow> chat_reach (chat_init u cs bs t)"
| step: "chat_reach s \<Longrightarrow> chat_enabled s e \<Longrightarrow> chat_reach (chat_next s e)"

section \<open>Scenario data\<close>

text \<open>Two conversations with empty logs, with the buddies \<open>demo_maria\<close> and
  \<open>demo_jose\<close>: the situation of the scenarios of the specification (conversation
  \<open>C1\<close> with participant Maria).\<close>

definition demo_c1 :: conversation where
  "demo_c1 = \<lparr>conv_id = ''C1'', participantId = ''maria'', conv_messages = [],
              lastMessageAt = 0, unreadCount = 0\<rparr>"

definition demo_c2 :: conversation where
  "demo_c2 = \<lparr>conv_id = ''C2'', participantId = ''jose'', conv_messages = [],
              lastMessageAt = 0, unreadCount = 0\<rparr>"

text \<open>A conversation whose participant is not among the buddies.\<close>

definition demo_c3 :: conversation where
  "demo_c3 = \<lparr>conv_id = ''C3'', participantId = ''ana'', conv_messages = [],
              lastMessageAt = 0, unreadCount = 0\<rparr>"

definition demo_start :: "ms \<Rightarrow> chat_state" where
  "demo_start t = chat_init (Some ''me'') [demo_c1, demo_c2] [demo_maria, demo_jose] t"


section \<open>Lemmas\<close>

lemma chrono_snoc: "chrono xs t \<Longrightarrow> timestamp m = t \<Longrightarrow> chrono (xs @ [m]) t"
  by (auto simp: chrono_def sorted_append)

lemma chrono_mono: "chrono xs t \<Longrightarrow> t \<le> t' \<Longrightarrow> chrono xs t'"
  by (auto simp: chrono_def)

lemma mock_ok_mono: "mock_ok cs t \<Longrightarrow> t \<le> t' \<Longrightarrow> mock_ok cs t'"
  by (auto simp: mock_ok_def intro: chrono_mono)

lemma filteredConversations_subset: "c \<in> set (filteredConversations s) \<Longrightarrow> c \<in> set (mockConversations s)"
  by (simp add: filteredConversations_def)

lemma chat_init_inv: "mock_ok cs t \<Longrightarrow> chat_inv (chat_init u cs bs t)"
  by (simp add: chat_inv_def chat_init_def chrono_def)

lemma select_inv:
  "chat_inv s \<Longrightarrow> c \<in> set (mockConversations s) \<Longrightarrow> chat_inv (handleSelectConversation c s)"
  by (auto simp: chat_inv_def handleSelectConversation_def sync_messages_effect_def mock_ok_def Let_def)

lemma send_inv: "chat_inv s \<Longrightarrow> handleSendMessage s = Inr s' \<Longrightarrow> chat_inv s'"
  by (auto simp: handleSendMessage_def chat_inv_def chrono_snoc sent_message_def sorted_append message_wf_def
           split: if_splits option.splits)

lemma replies_wf: "k < length replies \<Longrightarrow> replies ! k \<noteq> [] \<and> trim (replies ! k) = replies ! k"
proof -
  have "list_all (\<lambda>r. r \<noteq> [] \<and> trim r = r) replies"
    by (simp add: replies_def trim_def is_ws_def)
  then show "k < length replies \<Longrightarrow> ?thesis" by (simp add: list_all_length)
qed

lemma fire_inv: "chat_inv s \<Longrightarrow> k < length replies \<Longrightarrow> fire_timer k s = Some s' \<Longrightarrow> chat_inv s'"
  by (auto simp: fire_timer_def chat_inv_def chrono_snoc reply_message_def message_wf_def getRandomReply_def
           replies_wf string_of_nat_not_Nil split: list.splits if_splits)

lemma tick_inv: "chat_inv s \<Longrightarrow> chat_inv (advance_clock d s)"
  by (auto simp: advance_clock_def chat_inv_def intro: chrono_mono mock_ok_mono)

lemma ui_inv:
  "chat_inv s \<Longrightarrow> chat_inv (setSearchQuery q s)"
  "chat_inv s \<Longrightarrow> chat_inv (setNewMessage txt s)"
  "chat_inv s \<Longrightarrow> chat_inv (handleBack s)"
  by (simp_all add: chat_inv_def setSearchQuery_def setNewMessage_def handleBack_def)

lemma chat_next_inv:
  assumes "chat_inv s" and "chat_enabled s e"
  shows "chat_inv (chat_next s e)"
  using assms
proof (cases e)
  case (Select c)
  with assms show ?thesis
    by (auto simp: chat_next_def intro: select_inv filteredConversations_subset)
qed (auto simp: chat_next_def intro: ui_inv tick_inv send_inv fire_inv split: sum.splits option.splits)

lemma chat_reach_inv: "chat_reach s \<Longrightarrow> chat_inv s"
  by (induction rule: chat_reach.induct) (auto intro: chat_init_inv chat_next_inv)

lemma chat_run_reach: "chat_reach s \<Longrightarrow> chat_run_enabled s es \<Longrightarrow> chat_reach (chat_run s es)"
  by (induction es arbitrary: s) (auto intro: chat_reach.step)

lemma chat_next_frame:
  "mockConversations (chat_next s e) = mockConversations s"
  "mockBuddies (chat_next s e) = mockBuddies s"
  "user (chat_next s e) = user s"
  by (cases e; auto simp: chat_next_def setSearchQuery_def setNewMessage_def handleBack_def
      advance_clock_def handleSelectConversation_def sync_messages_effect_def Let_def
      handleSendMessage_def fire_timer_def split: sum.splits option.splits if_splits list.splits)+

lemma chat_next_clock_mono: "clock s \<le> clock (chat_next s e)"
  by (cases e; auto simp: chat_next_def setSearchQuery_def setNewMessage_def handleBack_def
      advance_clock_def handleSelectConversation_def sync_messages_effect_def Let_def
      handleSendMessage_def fire_timer_def split: sum.splits option.splits if_splits list.splits)

lemma fire_due_all:
  assumes "\<forall>tm \<in> set (timers s). due tm \<le> clock s" and "length ks = length (timers s)"
  shows "chat_run s (map Fire ks) =
           s\<lparr>timers := [],
             messages := messages s @ map2 (\<lambda>tm k. reply_message (reply_to tm) k (clock s)) (timers s) ks\<rparr>"
  using assms
proof (induction ks arbitrary: s)
  case Nil
  then show ?case by simp
next
  case (Cons k ks)
  then obtain tm rest where tms: "timers s = tm # rest" by (cases "timers s") auto
  let ?s1 = "s\<lparr>timers := rest, messages := messages s @ [reply_message (reply_to tm) k (clock s)]\<rparr>"
  from Cons.prems tms have "chat_next s (Fire k) = ?s1"
    by (simp add: chat_next_def fire_timer_def)
  moreover have "chat_run ?s1 (map Fire ks) =
      ?s1\<lparr>timers := [], messages := messages ?s1 @ map2 (\<lambda>tm k. reply_message (reply_to tm) k (clock ?s1)) (timers ?s1) ks\<rparr>"
    using Cons.prems tms by (intro Cons.IH) auto
  ultimately show ?case using tms by simp
qed

lemma fire_enabled_all:
  "\<forall>k \<in> set ks. k < length replies \<Longrightarrow> chat_run_enabled s (map Fire ks)"
  by (induction ks arbitrary: s) auto

lemma demo_reach: "chat_run_enabled (demo_start t) es \<Longrightarrow> chat_reach (chat_run (demo_start t) es)"
proof (rule chat_run_reach)
  show "chat_reach (demo_start t)"
    unfolding demo_start_def
    by (rule chat_reach.init) (simp add: mock_ok_def demo_c1_def demo_c2_def chrono_def)
qed

lemmas demo_defs = demo_start_def chat_init_def demo_c1_def demo_c2_def demo_maria_def demo_jose_def

lemmas chat_handler_defs = chat_next_def setSearchQuery_def setNewMessage_def handleBack_def
  advance_clock_def handleSelectConversation_def sync_messages_effect_def handleSendMessage_def
  fire_timer_def sent_message_def reply_message_def filteredConversations_def getBuddy_def

text \<open>C5: Replies are not isolated per conversation: a due reply callback appends its reply, authored by the participant its closure captured at send time, to the view of whichever conversation is selected when it fires, and the selection is left as it is.\<close>

theorem reply_lands_in_other_conversation:
  assumes "selectedConversation s = Some c" and "timers s = tm # rest" and "due tm \<le> clock s"
  shows "selectedConversation (chat_next s (Fire k)) = Some c
     \<and> timers (chat_next s (Fire k)) = rest
     \<and> messages (chat_next s (Fire k)) = messages s @ [reply_message (reply_to tm) k (clock s)]
     \<and> senderId (last (messages (chat_next s (Fire k)))) = reply_to tm"
  using assms by (simp add: chat_next_def fire_timer_def reply_message_def)

text \<open>C1: Sending a non-blank message with a conversation selected and a user signed in appends exactly one message to the view -- the trimmed input, authored by the user, stamped with the current clock, marked read, with id msg-<clock> -- clears the input, and schedules exactly one reply from the selected conversation's participant, due 1500 ms later.\<close>

theorem send_appends_message:
  assumes "trim (newMessage s) \<noteq> []" and "selectedConversation s = Some c" and "user s = Some u"
  shows "\<exists>s'. handleSendMessage s = Inr s'
     \<and> messages s' = messages s @ [\<lparr>msg_id = ''msg-'' @ string_of_nat (clock s), senderId = u,
                                     content = trim (newMessage s), timestamp = clock s, read = True\<rparr>]
     \<and> timers s' = timers s @ [\<lparr>due = clock s + 1500, reply_to = participantId c\<rparr>]
     \<and> newMessage s' = [] \<and> selectedConversation s' = Some c \<and> clock s' = clock s"
  using assms by (simp add: handleSendMessage_def sent_message_def)

text \<open>C2: In every reachable state the displayed log is in chronological order and no message is stamped later than the clock.\<close>

theorem view_chronological:
  "chat_reach s \<Longrightarrow> sorted (map timestamp (messages s)) \<and> (\<forall>m \<in> set (messages s). timestamp m \<le> clock s)"
  using chat_reach_inv [of s] by (simp add: chat_inv_def chrono_def)

text \<open>C9: In every reachable state the pending reply callbacks are ordered by due time (so the first scheduled fires first) and each is due at most 1500 ms from now.\<close>

theorem pending_replies_ordered:
  "chat_reach s \<Longrightarrow> sorted (map due (timers s)) \<and> (\<forall>tm \<in> set (timers s). due tm \<le> clock s + 1500)"
  using chat_reach_inv [of s] by (simp add: chat_inv_def)

text \<open>C6: No sequence of page events changes the conversation store: every conversation keeps its log, lastMessageAt and unreadCount, so a reply never raises an unread count (the specification says receiveMessage increments it).\<close>

theorem store_never_written: "mockConversations (chat_run s es) = mockConversations s"
  by (induction es arbitrary: s) (simp_all add: chat_next_frame)

text \<open>C4: From any reachable state, letting 1500 ms pass and running the event loop delivers every pending reply, one per scheduled callback and in scheduling order, each authored by the participant captured at send time, and leaves no callback pending.\<close>

theorem replies_delivered:
  assumes "chat_reach s" and "length ks = length (timers s)" and "\<forall>k \<in> set ks. k < length replies"
  shows "chat_run_enabled s (Tick 1500 # map Fire ks)
     \<and> timers (chat_run s (Tick 1500 # map Fire ks)) = []
     \<and> messages (chat_run s (Tick 1500 # map Fire ks))
         = messages s @ map2 (\<lambda>tm k. reply_message (reply_to tm) k (clock s + 1500)) (timers s) ks"
proof -
  let ?s1 = "advance_clock 1500 s"
  have tick: "chat_next s (Tick 1500) = ?s1" by (simp add: chat_next_def)
  from assms(1) have "\<forall>tm \<in> set (timers ?s1). due tm \<le> clock ?s1"
    by (auto dest: chat_reach_inv simp: chat_inv_def advance_clock_def)
  from fire_due_all [OF this] assms(2) have
    "chat_run ?s1 (map Fire ks) = ?s1\<lparr>timers := [], messages := messages ?s1 @
        map2 (\<lambda>tm k. reply_message (reply_to tm) k (clock ?s1)) (timers ?s1) ks\<rparr>"
    by (simp add: advance_clock_def)
  with tick assms(3) fire_enabled_all [OF assms(3)] show ?thesis
    by (simp add: advance_clock_def)
qed

text \<open>C7: A blank (whitespace-only) input or the absence of a selected conversation makes sending a no-op: the state is returned unchanged and no reply is scheduled.\<close>

theorem send_guard_noop:
  "trim (newMessage s) = [] \<or> selectedConversation s = None \<Longrightarrow> handleSendMessage s = Inr s"
  by (auto simp: handleSendMessage_def)

text \<open>C8: Sending a non-blank message with a conversation selected but no signed-in user throws (user!.id on null) and the page state is left unchanged.\<close>

theorem send_signed_out_error:
  "trim (newMessage s) \<noteq> [] \<Longrightarrow> selectedConversation s \<noteq> None \<Longrightarrow> user s = None
   \<Longrightarrow> handleSendMessage s = Inl NullUser \<and> chat_next s Send = s"
  by (auto simp: handleSendMessage_def chat_next_def)

text \<open>C11: A sent message lives only in the page view: switching from the selected conversation to another one and back reloads the view from the stored log of the conversation, which the page never writes, so every message sent or received since it was selected is gone.\<close>

theorem sent_message_lost_on_reselect:
  assumes "selectedConversation s = Some c" and "c' \<noteq> c"
  shows "messages (chat_run s [Select c', Select c]) = conv_messages c
     \<and> selectedConversation (chat_run s [Select c', Select c]) = Some c"
  using assms by (simp add: chat_next_def handleSelectConversation_def sync_messages_effect_def Let_def)

text \<open>C12: Message ids are not unique: when two reply callbacks are due, running both in the same millisecond appends two replies, from the participants captured at send time, that carry the same id msg-<clock>-reply.\<close>

theorem reply_ids_collide:
  assumes "timers s = tm1 # tm2 # rest" and "due tm1 \<le> clock s" and "due tm2 \<le> clock s"
  shows "\<exists>m1 m2. messages (chat_run s [Fire k1, Fire k2]) = messages s @ [m1, m2]
     \<and> senderId m1 = reply_to tm1 \<and> senderId m2 = reply_to tm2
     \<and> msg_id m1 = msg_id m2 \<and> timers (chat_run s [Fire k1, Fire k2]) = rest"
  using assms by (simp add: chat_next_def fire_timer_def reply_message_def)

text \<open>Ids of sent messages are determined by and determine their send time: two sent messages have the same id exactly when they were sent in the same millisecond.\<close>

lemma sent_ids_distinct:
  "msg_id (sent_message u x t1) = msg_id (sent_message v y t2) \<longleftrightarrow> t1 = t2"
  by (simp add: sent_message_def)

text \<open>The filtered conversation list keeps the store order: it is a subsequence of the mock conversations.\<close>

lemma filtered_keeps_order: "subseq (filteredConversations s) (mockConversations s)"
  by (simp add: filteredConversations_def)

text \<open>The search is case-insensitive: a stored conversation whose participant is a known buddy whose name contains the query verbatim is listed.\<close>

lemma exact_name_match_listed:
  "c \<in> set (mockConversations s) \<Longrightarrow> getBuddy (mockBuddies s) (participantId c) = Some b
   \<Longrightarrow> str_includes (name b) (searchQuery s) \<Longrightarrow> c \<in> set (filteredConversations s)"
  by (simp add: filteredConversations_def to_lower_includes)

text \<open>C3: Every message in the page state has the message type of the specification: in every reachable state each message of the view, and each message of every stored conversation, has a non-empty id and non-empty content without surrounding whitespace.\<close>

theorem view_well_typed:
  "chat_reach s \<Longrightarrow> list_all message_wf (messages s)
     \<and> (\<forall>c \<in> set (mockConversations s). list_all message_wf (conv_messages c))"
  using chat_reach_inv [of s] by (simp add: chat_inv_def mock_ok_def)

text \<open>C13: A conversation whose participant is not a known buddy is never listed: with the empty search the list holds exactly the conversations of known buddies, and under any search a conversation of an unknown participant is missing, so it can never be opened (the specification lists every conversation when there is no filter).\<close>

theorem unknown_participant_never_listed:
  "filteredConversations (s\<lparr>searchQuery := []\<rparr>)
     = filter (\<lambda>c. getBuddy (mockBuddies s) (participantId c) \<noteq> None) (mockConversations s)
   \<and> (getBuddy (mockBuddies s) (participantId c) = None \<longrightarrow> c \<notin> set (filteredConversations s))"
  by (auto simp: filteredConversations_def to_lower_def intro!: filter_cong split: option.splits)

section \<open>Witnesses\<close>

lemma demo_typed:
  "trim (newMessage (chat_run (demo_start 0) [Select demo_c1, Type ''Kumusta?''])) \<noteq> []"
  "selectedConversation (chat_run (demo_start 0) [Select demo_c1, Type ''Kumusta?'']) = Some demo_c1"
  "user (chat_run (demo_start 0) [Select demo_c1, Type ''Kumusta?'']) = Some ''me''"
  by (simp_all add: demo_defs chat_handler_defs trim_def is_ws_def)

theorem pending_replies_ordered_witness:
  "let s = chat_run (demo_start 0) [Select demo_c1, Type ''Kumusta?'', Send] in
   chat_reach s \<and> sorted (map due (timers s)) \<and> (\<forall>tm \<in> set (timers s). due tm \<le> clock s + 1500)"
proof -
  let ?s = "chat_run (demo_start 0) [Select demo_c1, Type ''Kumusta?'', Send]"
  have r: "chat_reach ?s"
    by (rule demo_reach) (simp add: demo_defs chat_handler_defs to_lower_def lower_char_def)
  show ?thesis using r pending_replies_ordered [OF r] unfolding Let_def by blast
qed

theorem replies_delivered_witness:
  "let s = chat_run (demo_start 0) [Select demo_c1, Type ''Kumusta?'', Send] in
   chat_reach s \<and> length [4] = length (timers s) \<and> 4 < length replies
   \<and> timers (chat_run s [Tick 1500, Fire 4]) = []
   \<and> messages (chat_run s [Tick 1500, Fire 4]) = messages s @ [reply_message ''maria'' 4 1500]"
proof -
  let ?s = "chat_run (demo_start 0) [Select demo_c1, Type ''Kumusta?'', Send]"
  have r: "chat_reach ?s"
    by (rule demo_reach) (simp add: demo_defs chat_handler_defs to_lower_def lower_char_def)
  have l: "length [4] = length (timers ?s)"
    by (simp add: demo_defs chat_handler_defs trim_def is_ws_def)
  have k: "\<forall>k \<in> set [4::nat]. k < length replies" by (simp add: replies_def)
  have tm: "timers ?s = [\<lparr>due = 1500, reply_to = ''maria''\<rparr>]" "clock ?s = 0"
    by (simp_all add: demo_defs chat_handler_defs trim_def is_ws_def)
  show ?thesis using r l k replies_delivered [OF r l k] tm by (simp add: Let_def replies_def)
qed

theorem send_guard_noop_witness:
  "(trim (newMessage (demo_start 0)) = [] \<or> selectedConversation (demo_start 0) = None)
   \<and> handleSendMessage (demo_start 0) = Inr (demo_start 0)"
proof -
  have h: "trim (newMessage (demo_start 0)) = [] \<or> selectedConversation (demo_start 0) = None"
    by (simp add: demo_defs trim_def)
  show ?thesis using h send_guard_noop [OF h] by blast
qed

theorem send_signed_out_error_witness:
  "let s = (chat_run (demo_start 0) [Select demo_c1, Type ''Kumusta?''])\<lparr>user := None\<rparr> in
   trim (newMessage s) \<noteq> [] \<and> selectedConversation s \<noteq> None \<and> user s = None
   \<and> handleSendMessage s = Inl NullUser \<and> chat_next s Send = s"
proof -
  let ?s = "(chat_run (demo_start 0) [Select demo_c1, Type ''Kumusta?''])\<lparr>user := None\<rparr>"
  have h: "trim (newMessage ?s) \<noteq> []" "selectedConversation ?s \<noteq> None" "user ?s = None"
    using demo_typed by simp_all
  show ?thesis using h send_signed_out_error [OF h] unfolding Let_def by blast
qed

theorem send_appends_message_witness:
  "let s = chat_run (demo_start 0) [Select demo_c1, Type ''Kumusta?''] in
   trim (newMessage s) \<noteq> [] \<and> selectedConversation s = Some demo_c1 \<and> user s = Some ''me''
   \<and> (\<exists>s'. handleSendMessage s = Inr s'
     \<and> messages s' = messages s @ [\<lparr>msg_id = ''msg-'' @ string_of_nat (clock s), senderId = ''me'',
                                     content = trim (newMessage s), timestamp = clock s, read = True\<rparr>]
     \<and> timers s' = timers s @ [\<lparr>due = clock s + 1500, reply_to = participantId demo_c1\<rparr>]
     \<and> newMessage s' = [] \<and> selectedConversation s' = Some demo_c1 \<and> clock s' = clock s)"
proof -
  let ?s = "chat_run (demo_start 0) [Select demo_c1, Type ''Kumusta?'']"
  have h: "trim (newMessage ?s) \<noteq> []" "selectedConversation ?s = Some demo_c1" "user ?s = Some ''me''"
    by (simp_all add: demo_defs chat_handler_defs trim_def is_ws_def)
  show ?thesis using h send_appends_message [OF h] unfolding Let_def by blast
qed

theorem view_chronological_witness:
  "let s = chat_run (demo_start 0) [Select demo_c1, Type ''Kumusta?'', Send, Tick 1500, Fire 2] in
   chat_reach s \<and> sorted (map timestamp (messages s)) \<and> (\<forall>m \<in> set (messages s). timestamp m \<le> clock s)"
proof -
  let ?s = "chat_run (demo_start 0) [Select demo_c1, Type ''Kumusta?'', Send, Tick 1500, Fire 2]"
  have r: "chat_reach ?s"
    by (rule demo_reach) (simp add: demo_defs chat_handler_defs to_lower_def lower_char_def replies_def)
  show ?thesis using r view_chronological [OF r] unfolding Let_def by blast
qed

theorem view_well_typed_witness:
  "let s = chat_run (demo_start 0) [Select demo_c1, Type ''Kumusta?'', Send, Tick 1500, Fire 2] in
   chat_reach s \<and> list_all message_wf (messages s) \<and> length (messages s) = 2"
proof -
  let ?s = "chat_run (demo_start 0) [Select demo_c1, Type ''Kumusta?'', Send, Tick 1500, Fire 2]"
  have r: "chat_reach ?s"
    by (rule demo_reach) (simp add: demo_defs chat_handler_defs to_lower_def lower_char_def replies_def)
  have "length (messages ?s) = 2"
    by (simp add: demo_defs chat_handler_defs trim_def is_ws_def)
  then show ?thesis using r view_well_typed [OF r] unfolding Let_def by blast
qed

theorem unknown_participant_never_listed_witness:
  "let s = chat_init (Some ''me'') [demo_c1, demo_c3] [demo_maria] 0 in
   getBuddy (mockBuddies s) (participantId demo_c3) = None \<and> demo_c3 \<notin> set (filteredConversations s)
   \<and> filteredConversations (s\<lparr>searchQuery := []\<rparr>) = [demo_c1]"
proof -
  let ?s = "chat_init (Some ''me'') [demo_c1, demo_c3] [demo_maria] 0"
  have u: "getBuddy (mockBuddies ?s) (participantId demo_c3) = None"
    by (simp add: chat_init_def getBuddy_def demo_c3_def demo_maria_def)
  have k: "filter (\<lambda>c. getBuddy (mockBuddies ?s) (participantId c) \<noteq> None) (mockConversations ?s) = [demo_c1]"
    by (simp add: chat_init_def getBuddy_def demo_c1_def demo_c3_def demo_maria_def)
  show ?thesis using u k unknown_participant_never_listed [of ?s demo_c3] unfolding Let_def by simp
qed

theorem reply_lands_in_other_conversation_witness:
  "chat_reach (chat_run (demo_start 0) [Select demo_c1, Type ''Kumusta?'', Send, Select demo_c2, Tick 1500])
   \<and> participantId demo_c2 \<noteq> ''maria''
   \<and> selectedConversation (chat_next (chat_run (demo_start 0) [Select demo_c1, Type ''Kumusta?'', Send, Select demo_c2, Tick 1500]) (Fire 0)) = Some demo_c2
   \<and> senderId (last (messages (chat_next (chat_run (demo_start 0) [Select demo_c1, Type ''Kumusta?'', Send, Select demo_c2, Tick 1500]) (Fire 0)))) = ''maria''"
proof -
  let ?s = "chat_run (demo_start 0) [Select demo_c1, Type ''Kumusta?'', Send, Select demo_c2, Tick 1500]"
  have reach: "chat_reach ?s"
    by (rule demo_reach) (simp add: demo_defs chat_handler_defs to_lower_def lower_char_def)
  have sel: "selectedConversation ?s = Some demo_c2"
    by (simp add: demo_defs chat_handler_defs trim_def is_ws_def)
  have tms: "timers ?s = \<lparr>due = 1500, reply_to = ''maria''\<rparr> # []"
    by (simp add: demo_defs chat_handler_defs trim_def is_ws_def)
  have clk: "due \<lparr>due = 1500, reply_to = ''maria''\<rparr> \<le> clock ?s"
    by (simp add: demo_defs chat_handler_defs trim_def is_ws_def)
  have ne: "participantId demo_c2 \<noteq> ''maria''" by (simp add: demo_c2_def)
  note r = reply_lands_in_other_conversation [OF sel tms clk, of 0, unfolded timer.select_convs]
  show ?thesis using reach ne r by blast
qed

theorem sent_message_lost_on_reselect_witness:
  "sent_message ''me'' ''Kumusta?'' 0 \<in> set (messages (chat_run (demo_start 0) [Select demo_c1, Type ''Kumusta?'', Send]))
   \<and> messages (chat_run (chat_run (demo_start 0) [Select demo_c1, Type ''Kumusta?'', Send]) [Select demo_c2, Select demo_c1]) = []"
proof -
  let ?s = "chat_run (demo_start 0) [Select demo_c1, Type ''Kumusta?'', Send]"
  have sel: "selectedConversation ?s = Some demo_c1"
    by (simp add: demo_defs chat_handler_defs trim_def is_ws_def)
  have ne: "demo_c2 \<noteq> demo_c1" by (simp add: demo_c1_def demo_c2_def)
  have sent: "sent_message ''me'' ''Kumusta?'' 0 \<in> set (messages ?s)"
    by (simp add: demo_defs chat_handler_defs trim_def is_ws_def)
  show ?thesis
    using sent sent_message_lost_on_reselect [OF sel ne] by (simp add: demo_c1_def)
qed

theorem reply_ids_collide_witness:
  "chat_reach (chat_run (demo_start 0) [Select demo_c1, Type ''a'', Send, Tick 200, Type ''b'', Send, Tick 1500])
   \<and> (\<exists>m1 m2. messages (chat_run (chat_run (demo_start 0) [Select demo_c1, Type ''a'', Send, Tick 200, Type ''b'', Send, Tick 1500]) [Fire 0, Fire 1])
          = messages (chat_run (demo_start 0) [Select demo_c1, Type ''a'', Send, Tick 200, Type ''b'', Send, Tick 1500]) @ [m1, m2]
        \<and> msg_id m1 = msg_id m2)"
proof -
  let ?s = "chat_run (demo_start 0) [Select demo_c1, Type ''a'', Send, Tick 200, Type ''b'', Send, Tick 1500]"
  have reach: "chat_reach ?s"
    by (rule demo_reach) (simp add: demo_defs chat_handler_defs to_lower_def lower_char_def)
  have tms: "timers ?s = \<lparr>due = 1500, reply_to = ''maria''\<rparr> # \<lparr>due = 1700, reply_to = ''maria''\<rparr> # []"
    by (simp add: demo_defs chat_handler_defs trim_def is_ws_def)
  have d1: "due \<lparr>due = 1500, reply_to = ''maria''\<rparr> \<le> clock ?s"
    by (simp add: demo_defs chat_handler_defs trim_def is_ws_def)
  have d2: "due \<lparr>due = 1700, reply_to = ''maria''\<rparr> \<le> clock ?s"
    by (simp add: demo_defs chat_handler_defs trim_def is_ws_def)
  show ?thesis
    using reach reply_ids_collide [OF tms d1 d2, of 0 1] by blast
qed

end
