(* ===== verification/Notifications.thy ===== *)
theory Notifications
  imports Data
begin

text \<open>
  The notification context, \<open>src/context/NotificationContext.tsx\<close>: one
  \<open>useState\<close> list of notifications, newest first, with the derived
  \<open>unreadCount\<close> and four updaters. Each updater is the function the code passes to
  \<open>setNotifications\<close>, so React's functional updates compose as function
  composition. The context never reads the chat state: it is an independent
  component. \<open>evolves\<close> is the relation between a feed and a later one in which no
  notification was created: a subsequence whose members differ only by read flags
  that went from false to true.
\<close>

section \<open>Operations\<close>

type_synonym 'p feed = "'p notification list"

definition notif_unreadCount :: "'p feed \<Rightarrow> nat" where
  "notif_unreadCount ns = length (filter (\<lambda>n. \<not> isRead n) ns)"

text \<open>\<open>id: Date.now().toString()\<close> and \<open>timestamp: new Date().toISOString()\<close> read
  the same clock value \<open>t\<close>.\<close>

definition new_notification :: "'p \<Rightarrow> ms \<Rightarrow> 'p notification" where
  "new_notification p t = \<lparr>nid = string_of_nat t, payload = p, ntimestamp = t, isRead = False\<rparr>"

definition addNotification :: "'p \<Rightarrow> ms \<Rightarrow> 'p feed \<Rightarrow> 'p feed" where
  "addNotification p t ns = new_notification p t # ns"

definition markAsRead :: "string \<Rightarrow> 'p feed \<Rightarrow> 'p feed" where
  "markAsRead i ns = map (\<lambda>n. if nid n = i then n\<lparr>isRead := True\<rparr> else n) ns"

definition markAllAsRead :: "'p feed \<Rightarrow> 'p feed" where
  "markAllAsRead ns = map (\<lambda>n. n\<lparr>isRead := True\<rparr>) ns"

definition clearNotification :: "string \<Rightarrow> 'p feed \<Rightarrow> 'p feed" where
  "clearNotification i ns = filter (\<lambda>n. nid n \<noteq> i) ns"

text \<open>\<open>useNotifications\<close>: reading the context outside its provider throws.\<close>

datatype context_error = OutsideProvider

definition useNotifications :: "'c option \<Rightarrow> context_error + 'c" where
  "useNotifications ctx = (case ctx of None \<Rightarrow> Inl OutsideProvider | Some c \<Rightarrow> Inr c)"

datatype 'p notif_event = AddN 'p | MarkRead string | MarkAll | ClearN string

fun notif_step :: "ms \<Rightarrow> 'p feed \<Rightarrow> 'p notif_event \<Rightarrow> 'p feed" where
  "notif_step t ns (AddN p) = addNotification p t ns"
| "notif_step t ns (MarkRead i) = markAsRead i ns"
| "notif_step t ns MarkAll = markAllAsRead ns"
| "notif_step t ns (ClearN i) = clearNotification i ns"

fun notif_run :: "ms \<Rightarrow> 'p feed \<Rightarrow> 'p notif_event list \<Rightarrow> 'p feed" where
  "notif_run t ns [] = ns"
| "notif_run t ns (e # es) = notif_run t (notif_step t ns e) es"

fun creates :: "'p notif_event \<Rightarrow> bool" where
  "creates (AddN p) = True"
| "creates e = False"

section \<open>Feed order and evolution\<close>

definition newest_first :: "'p feed \<Rightarrow> ms \<Rightarrow> bool" where
  "newest_first ns t \<longleftrightarrow>
     sorted_wrt (\<ge>) (map ntimestamp ns) \<and> (\<forall>n \<in> set ns. ntimestamp n \<le> t)"

definition read_le :: "'p notification \<Rightarrow> 'p notification \<Rightarrow> bool" where
  "read_le n n' \<longleftrightarrow> n'\<lparr>isRead := isRead n\<rparr> = n \<and> (isRead n \<longrightarrow> isRead n')"

fun evolves :: "'p feed \<Rightarrow> 'p feed \<Rightarrow> bool" where
  "evolves ns [] = True"
| "evolves [] (n' # ns') = False"
| "evolves (n # ns) (n' # ns') = ((read_le n n' \<and> evolves ns ns') \<or> evolves ns (n' # ns'))"

text \<open>The feeds the provider can hold at clock \<open>t\<close>: the mock feed, if it is newest
  first, and every feed reached by an updater or by the passing of time.\<close>

inductive notif_reach :: "ms \<Rightarrow> 'p feed \<Rightarrow> bool" where
  init: "newest_first ns t \<Longrightarrow> notif_reach t ns"
| step: "notif_reach t ns \<Longrightarrow> notif_reach t (notif_step t ns e)"
| tick: "notif_reach t ns \<Longrightarrow> notif_reach (t + d) ns"

section \<open>Scenario data\<close>

definition demo_feed :: "string feed" where
  "demo_feed =
     [\<lparr>nid = ''2'', payload = ''check-in flag'', ntimestamp = 2, isRead = False\<rparr>,
      \<lparr>nid = ''1'', payload = ''alert'', ntimestamp = 1, isRead = True\<rparr>]"


section \<open>Lemmas\<close>

lemma map_ntimestamp_updates [simp]:
  "map ntimestamp (markAsRead i ns) = map ntimestamp ns"
  "map ntimestamp (markAllAsRead ns) = map ntimestamp ns"
  by (simp_all add: markAsRead_def markAllAsRead_def comp_def)

lemma newest_first_step: "newest_first ns t \<Longrightarrow> newest_first (notif_step t ns e) t"
proof (cases e)
  case (ClearN i)
  assume "newest_first ns t"
  then show ?thesis using ClearN
    by (auto simp: newest_first_def clearNotification_def sorted_wrt_map sorted_wrt_filter)
qed (auto simp: newest_first_def addNotification_def new_notification_def
       markAsRead_def markAllAsRead_def sorted_wrt_map)

lemma newest_first_mono: "newest_first ns t \<Longrightarrow> t \<le> t' \<Longrightarrow> newest_first ns t'"
  by (auto simp: newest_first_def)

lemma read_le_refl [simp]: "read_le n n"
  by (simp add: read_le_def)

lemma read_le_set_read [simp]: "read_le n (n\<lparr>isRead := True\<rparr>)"
  by (simp add: read_le_def)

lemma evolves_refl [simp]: "evolves ns ns"
  by (induction ns) auto

lemma evolves_drop: "evolves ns ys \<Longrightarrow> evolves (n # ns) ys"
  by (cases ys) auto

lemma evolves_markAsRead: "evolves ns (markAsRead i ns)"
  by (induction ns) (auto simp: markAsRead_def)

lemma evolves_markAllAsRead: "evolves ns (markAllAsRead ns)"
  by (induction ns) (auto simp: markAllAsRead_def)

lemma evolves_clear: "evolves ns (clearNotification i ns)"
  by (induction ns) (auto simp: clearNotification_def intro: evolves_drop)

lemma read_le_trans: "read_le a b \<Longrightarrow> read_le b c \<Longrightarrow> read_le a c"
  unfolding read_le_def by (metis (full_types) notification.surjective notification.update_convs(4))

lemma evolves_Nil_iff [simp]: "evolves [] ys \<longleftrightarrow> ys = []"
  by (cases ys) auto

lemma evolves_trans: "evolves xs ys \<Longrightarrow> evolves ys zs \<Longrightarrow> evolves xs zs"
proof (induction xs ys arbitrary: zs rule: evolves.induct)
  case (1 ns)
  then show ?case by (cases zs) auto
next
  case (2 n' ns')
  then show ?case by simp
next
  case (3 n ns n' ns')
  show ?case
  proof (cases zs)
    case Nil
    then show ?thesis by simp
  next
    case (Cons z zs')
    from "3.prems"(1) consider "read_le n n'" "evolves ns ns'" | "evolves ns (n' # ns')" by auto
    then show ?thesis
    proof cases
      case 1
      from "3.prems"(2) Cons consider "read_le n' z" "evolves ns' zs'" | "evolves ns' (z # zs')" by auto
      then show ?thesis
      proof cases
        case 1
        with \<open>read_le n n'\<close> \<open>evolves ns ns'\<close> "3.IH"(1) Cons show ?thesis
          by (auto intro: read_le_trans)
      next
        case 2
        with \<open>read_le n n'\<close> \<open>evolves ns ns'\<close> "3.IH"(1) Cons show ?thesis
          by (auto intro: evolves_drop)
      qed
    next
      case 2
      with "3.IH"(2) "3.prems"(2) Cons show ?thesis by (auto intro: evolves_drop)
    qed
  qed
qed

lemma notif_step_evolves: "\<not> creates e \<Longrightarrow> evolves ns (notif_step t ns e)"
  by (cases e) (auto intro: evolves_markAsRead evolves_markAllAsRead evolves_clear)


lemma length_clear_count: "length (clearNotification i ns) = length ns - count_list (map nid ns) i"
proof -
  have "length (clearNotification i ns) + count_list (map nid ns) i = length ns"
    by (induction ns) (auto simp: clearNotification_def)
  then show ?thesis by simp
qed

text \<open>C14: Adding a notification raises the unread count by exactly one: the new notification heads the feed, unread, with id and timestamp from the clock, and the rest of the feed is unchanged.\<close>

theorem add_notification_counts:
  "notif_unreadCount (addNotification p t ns) = Suc (notif_unreadCount ns)
   \<and> hd (addNotification p t ns) = \<lparr>nid = string_of_nat t, payload = p, ntimestamp = t, isRead = False\<rparr>
   \<and> tl (addNotification p t ns) = ns"
  by (simp add: notif_unreadCount_def addNotification_def new_notification_def)

text \<open>markAllAsRead drives the unread count to zero, keeps every notification, and is idempotent.\<close>

lemma mark_all_read_clears:
  "notif_unreadCount (markAllAsRead ns) = 0 \<and> length (markAllAsRead ns) = length ns
   \<and> markAllAsRead (markAllAsRead ns) = markAllAsRead ns"
  by (simp add: notif_unreadCount_def markAllAsRead_def comp_def)

text \<open>C17: markAsRead i leaves unread exactly the unread notifications whose id is not i, and is idempotent.\<close>

theorem mark_as_read_count:
  "notif_unreadCount (markAsRead i ns) = length (filter (\<lambda>n. \<not> isRead n \<and> nid n \<noteq> i) ns)
   \<and> markAsRead i (markAsRead i ns) = markAsRead i ns"
  by (induction ns) (auto simp: notif_unreadCount_def markAsRead_def)

text \<open>C18: markAsRead and clearNotification on an id that is not in the feed are benign no-ops: the feed is returned unchanged, no error.\<close>

theorem absent_id_noop:
  "i \<notin> nid ` set ns \<Longrightarrow> markAsRead i ns = ns \<and> clearNotification i ns = ns"
  by (induction ns) (auto simp: markAsRead_def clearNotification_def)

text \<open>C19: clearNotification i removes every notification with id i (the feed shrinks by their number) and a second clear of the same id changes nothing.\<close>

theorem clear_removes_every_match:
  "i \<notin> nid ` set (clearNotification i ns)
   \<and> length (clearNotification i ns) = length ns - count_list (map nid ns) i
   \<and> clearNotification i (clearNotification i ns) = clearNotification i ns"
  by (auto simp: clearNotification_def length_clear_count [unfolded clearNotification_def])

text \<open>C15: Every feed the provider can hold is newest first (timestamps non-increasing along the list) and no notification is stamped after the clock.\<close>

theorem feed_newest_first: "notif_reach t ns \<Longrightarrow> newest_first ns t"
  by (induction rule: notif_reach.induct) (auto intro: newest_first_step newest_first_mono)

text \<open>C16: Any sequence of markAsRead, markAllAsRead and clearNotification only removes notifications and raises read flags: every remaining notification is an earlier one, in the same order, with the same id, payload and timestamp, and read if it was read before.\<close>

theorem run_without_add_evolves:
  "\<forall>e \<in> set es. \<not> creates e \<Longrightarrow> evolves ns (notif_run t ns es)"
proof (induction es arbitrary: ns)
  case Nil
  then show ?case by simp
next
  case (Cons e es)
  then have "evolves ns (notif_step t ns e)" and "evolves (notif_step t ns e) (notif_run t (notif_step t ns e) es)"
    by (simp_all add: notif_step_evolves)
  then show ?case by (simp add: evolves_trans)
qed

text \<open>C20: Notification ids are not unique: two notifications added in the same millisecond share the id Date.now().toString(), so clearing or marking one clears or marks both.\<close>

theorem same_ms_ids_collide:
  "let ns = addNotification q t (addNotification p t []) in
   nid (ns ! 0) = nid (ns ! 1) \<and> clearNotification (nid (hd ns)) ns = []
   \<and> notif_unreadCount (markAsRead (nid (hd ns)) ns) = 0"
  by (simp add: addNotification_def new_notification_def clearNotification_def markAsRead_def
      notif_unreadCount_def)

text \<open>The specification scenario for the feed: adding raises the unread count by one, markAllAsRead drives it to zero, clearing the new id shrinks the feed, and clearing the already-cleared id again leaves the feed unchanged.\<close>

lemma feed_scenario:
  "let ns1 = addNotification p t ns; ns2 = markAllAsRead ns1;
       ns3 = clearNotification (string_of_nat t) ns2; ns4 = clearNotification (string_of_nat t) ns3
   in notif_unreadCount ns1 = Suc (notif_unreadCount ns) \<and> notif_unreadCount ns2 = 0
      \<and> length ns3 < length ns2 \<and> ns4 = ns3"
  by (simp add: Let_def notif_unreadCount_def addNotification_def new_notification_def
      markAllAsRead_def clearNotification_def comp_def le_imp_less_Suc)

section \<open>Witnesses\<close>

theorem absent_id_noop_witness:
  "''9'' \<notin> nid ` set demo_feed \<and> markAsRead ''9'' demo_feed = demo_feed
   \<and> clearNotification ''9'' demo_feed = demo_feed"
proof -
  have h: "''9'' \<notin> nid ` set demo_feed" by (simp add: demo_feed_def)
  show ?thesis using h absent_id_noop [OF h] by blast
qed

theorem feed_newest_first_witness:
  "notif_reach 5 (notif_step 5 demo_feed (AddN ''message''))
   \<and> newest_first (notif_step 5 demo_feed (AddN ''message'')) 5"
proof -
  have "newest_first demo_feed 5" by (simp add: demo_feed_def newest_first_def)
  then have h: "notif_reach 5 (notif_step 5 demo_feed (AddN ''message''))"
    by (intro notif_reach.step notif_reach.init)
  show ?thesis using h feed_newest_first [OF h] by blast
qed

theorem run_without_add_evolves_witness:
  "\<not> creates (MarkRead ''2'' :: string notif_event) \<and> \<not> creates (ClearN ''1'' :: string notif_event)
   \<and> \<not> creates (MarkAll :: string notif_event)
   \<and> evolves demo_feed (notif_run 5 demo_feed [MarkRead ''2'', ClearN ''1'', MarkAll])"
proof -
  have h: "\<forall>e \<in> set [MarkRead ''2'', ClearN ''1'', MarkAll]. \<not> creates (e :: string notif_event)"
    by simp
  show ?thesis using run_without_add_evolves [OF h] by simp
qed

end
