(* ===== verification/Api.thy ===== *)
theory Api
  imports Prelude
begin

text \<open>
  The API client, \<open>src/services/api.ts\<close>: the singleton \<open>ApiService\<close> with its
  bearer token mirrored in \<open>localStorage\<close>, the request each endpoint method sends,
  and \<open>handleResponse\<close>, which turns a response into \<open>{data}\<close> or \<open>{error}\<close>.
  JavaScript values are the datatype \<open>jsval\<close> (numbers as integers), with the
  truthiness and \<open>||\<close> of the language. \<open>JSON.parse\<close> is a library call the
  client only uses: it is a parameter \<open>parse\<close> of the model (\<open>None\<close> is a thrown
  \<open>SyntaxError\<close>), and the properties hold for every parser. \<open>fetch\<close> is the
  environment: its result is an argument, \<open>None\<close> when the request fails.
\<close>

section \<open>JavaScript values\<close>

datatype jsval =
    JUndefined | JNull | JBool bool | JNum int | JStr string
  | JArr "jsval list" | JObj "(string \<times> jsval) list"

fun truthy :: "jsval \<Rightarrow> bool" where
  "truthy JUndefined = False"
| "truthy JNull = False"
| "truthy (JBool b) = b"
| "truthy (JNum n) = (n \<noteq> 0)"
| "truthy (JStr s) = (s \<noteq> [])"
| "truthy (JArr vs) = True"
| "truthy (JObj kvs) = True"

definition js_or :: "jsval \<Rightarrow> jsval \<Rightarrow> jsval" where
  "js_or a b = (if truthy a then a else b)"

text \<open>Reading a data property (\<open>detail\<close>, \<open>message\<close>) of a value: \<open>None\<close> is the
  \<open>TypeError\<close> of a read on \<open>null\<close> or \<open>undefined\<close>; the last occurrence of a key
  wins, as in the objects \<open>JSON.parse\<close> builds.\<close>

fun get_prop :: "jsval \<Rightarrow> string \<Rightarrow> jsval option" where
  "get_prop JUndefined k = None"
| "get_prop JNull k = None"
| "get_prop (JObj kvs) k = Some (case map_of (rev kvs) k of None \<Rightarrow> JUndefined | Some v \<Rightarrow> v)"
| "get_prop v k = Some JUndefined"

section \<open>Responses\<close>

record api_response =
  data :: "jsval option"
  error :: "jsval option"

record http_response =
  ok :: bool
  body_text :: string

datatype api_exception = JsonSyntaxError | NetworkError

definition default_error :: jsval where
  "default_error = JStr ''An error occurred''"

text \<open>The \<open>try\<close>/\<open>catch\<close> of \<open>handleResponse\<close>: the value assigned to
  \<open>errorMessage\<close>.\<close>

definition error_message :: "(string \<Rightarrow> jsval option) \<Rightarrow> string \<Rightarrow> jsval" where
  "error_message parse errorText =
     (let caught = js_or (JStr errorText) default_error in
      case parse errorText of
        None \<Rightarrow> caught
      | Some errorJson \<Rightarrow>
          (case get_prop errorJson ''detail'' of
             None \<Rightarrow> caught
           | Some d \<Rightarrow>
               if truthy d then d
               else (case get_prop errorJson ''message'' of
                       None \<Rightarrow> caught
                     | Some m \<Rightarrow> js_or m default_error)))"

definition handleResponse :: "(string \<Rightarrow> jsval option) \<Rightarrow> http_response \<Rightarrow> api_exception + api_response" where
  "handleResponse parse r =
     (if ok r then
        (case parse (body_text r) of
           None \<Rightarrow> Inl JsonSyntaxError
         | Some d \<Rightarrow> Inr \<lparr>data = Some d, error = None\<rparr>)
      else Inr \<lparr>data = None, error = Some (error_message parse (body_text r))\<rparr>)"

section \<open>The service and its token\<close>

record api_service =
  token :: "string option"

type_synonym storage = "string \<Rightarrow> string option"

definition token_key :: string where
  "token_key = ''safezoneph_token''"

definition new_ApiService :: "storage \<Rightarrow> api_service" where
  "new_ApiService st = \<lparr>token = st token_key\<rparr>"

definition getHeaders :: "api_service \<Rightarrow> (string \<times> string) list" where
  "getHeaders s =
     [(''Content-Type'', ''application/json'')]
     @ (case token s of
          None \<Rightarrow> []
        | Some t \<Rightarrow> if t = [] then [] else [(''Authorization'', ''Bearer '' @ t)])"

definition setToken :: "string \<Rightarrow> api_service \<times> storage \<Rightarrow> api_service \<times> storage" where
  "setToken t ss = (fst ss\<lparr>token := Some t\<rparr>, (snd ss)(token_key \<mapsto> t))"

definition clearToken :: "api_service \<times> storage \<Rightarrow> api_service \<times> storage" where
  "clearToken ss = (fst ss\<lparr>token := None\<rparr>, (snd ss)(token_key := None))"

datatype token_op = SetToken string | ClearToken | Reload

text \<open>\<open>Reload\<close>: the page is loaded again and the module builds a new
  \<open>ApiService\<close> from the storage.\<close>

fun token_step :: "api_service \<times> storage \<Rightarrow> token_op \<Rightarrow> api_service \<times> storage" where
  "token_step ss (SetToken t) = setToken t ss"
| "token_step ss ClearToken = clearToken ss"
| "token_step ss Reload = (new_ApiService (snd ss), snd ss)"

fun token_run :: "api_service \<times> storage \<Rightarrow> token_op list \<Rightarrow> api_service \<times> storage" where
  "token_run ss [] = ss"
| "token_run ss (o1 # os) = token_run (token_step ss o1) os"

section \<open>Endpoints\<close>

text \<open>The methods of \<open>ApiService\<close>, grouped as the class groups them; a payload is
  the object passed to \<open>JSON.stringify\<close>, a numeric id a natural number.\<close>

datatype auth_call = Register jsval | Login jsval | GetCurrentUser

datatype task_call =
    GetTasks | CreateTask jsval | UpdateTask string jsval | GetPointsHistory

datatype help_call = GetHelpRequests | CreateHelpRequest jsval | RespondToHelpRequest nat

datatype alert_call =
    GetGlobalAlerts | CreateGlobalAlert jsval | AcknowledgeAlert nat | ToggleAlertStatus nat

datatype community_call = GetCommunityTasks | CreateCommunityTask jsval | VolunteerForTask nat

datatype endpoint =
    Auth auth_call | Tasks task_call | Help help_call | Alerts alert_call
  | Community community_call

type_synonym route = "string \<times> string \<times> jsval option" \<comment> \<open>method, path, body\<close>

fun auth_route :: "auth_call \<Rightarrow> route" where
  "auth_route (Register u) = (''POST'', ''/api/auth/register'', Some u)"
| "auth_route (Login c) = (''POST'', ''/api/auth/login'', Some c)"
| "auth_route GetCurrentUser = (''GET'', ''/api/auth/me'', None)"

fun task_route :: "task_call \<Rightarrow> route" where
  "task_route GetTasks = (''GET'', ''/api/tasks'', None)"
| "task_route (CreateTask d) = (''POST'', ''/api/tasks'', Some d)"
| "task_route (UpdateTask i u) = (''PATCH'', ''/api/tasks/'' @ i, Some u)"
| "task_route GetPointsHistory = (''GET'', ''/api/points/history'', None)"

fun help_route :: "help_call \<Rightarrow> route" where
  "help_route GetHelpRequests = (''GET'', ''/api/help-requests'', None)"
| "help_route (CreateHelpRequest d) = (''POST'', ''/api/help-requests'', Some d)"
| "help_route (RespondToHelpRequest n) =
     (''PATCH'', ''/api/help-requests/'' @ string_of_nat n @ ''/respond'', None)"

fun alert_route :: "alert_call \<Rightarrow> route" where
  "alert_route GetGlobalAlerts = (''GET'', ''/api/global-alerts'', None)"
| "alert_route (CreateGlobalAlert d) = (''POST'', ''/api/global-alerts'', Some d)"
| "alert_route (AcknowledgeAlert n) =
     (''PATCH'', ''/api/global-alerts/'' @ string_of_nat n @ ''/acknowledge'', None)"
| "alert_route (ToggleAlertStatus n) =
     (''PATCH'', ''/api/global-alerts/'' @ string_of_nat n @ ''/toggle'', None)"

fun community_route :: "community_call \<Rightarrow> route" where
  "community_route GetCommunityTasks = (''GET'', ''/api/community-tasks'', None)"
| "community_route (CreateCommunityTask d) = (''POST'', ''/api/community-tasks'', Some d)"
| "community_route (VolunteerForTask n) =
     (''POST'', ''/api/community-tasks/'' @ string_of_nat n @ ''/volunteer'', None)"

fun endpoint_route :: "endpoint \<Rightarrow> route" where
  "endpoint_route (Auth c) = auth_route c"
| "endpoint_route (Tasks c) = task_route c"
| "endpoint_route (Help c) = help_route c"
| "endpoint_route (Alerts c) = alert_route c"
| "endpoint_route (Community c) = community_route c"

text \<open>An endpoint call with its payload forgotten: the method called and its ids.\<close>

fun erase_payload :: "endpoint \<Rightarrow> endpoint" where
  "erase_payload (Auth (Register _)) = Auth (Register JNull)"
| "erase_payload (Auth (Login _)) = Auth (Login JNull)"
| "erase_payload (Tasks (CreateTask _)) = Tasks (CreateTask JNull)"
| "erase_payload (Tasks (UpdateTask i _)) = Tasks (UpdateTask i JNull)"
| "erase_payload (Help (CreateHelpRequest _)) = Help (CreateHelpRequest JNull)"
| "erase_payload (Alerts (CreateGlobalAlert _)) = Alerts (CreateGlobalAlert JNull)"
| "erase_payload (Community (CreateCommunityTask _)) = Community (CreateCommunityTask JNull)"
| "erase_payload e = e"

text \<open>\<open>JSON.stringify\<close> on the values of the model: \<open>undefined\<close> gives
  \<open>undefined\<close> (no body); an object drops its members whose value is
  \<open>undefined\<close>, an array writes them as \<open>null\<close>; strings are quoted with
  \<open>"\<close> and \<open>\\\<close> escaped, the named control escapes and \<open>\\u00XX\<close> for the
  other control characters.\<close>

definition hex_digit :: "nat \<Rightarrow> char" where
  "hex_digit n = (if n < 10 then char_of (48 + n) else char_of (87 + n))"

definition json_char :: "char \<Rightarrow> string" where
  "json_char c =
     (if c = CHR 0x22 then [CHR 0x5C, CHR 0x22]
      else if c = CHR 0x5C then [CHR 0x5C, CHR 0x5C]
      else if c = CHR 0x08 then [CHR 0x5C, CHR ''b'']
      else if c = CHR 0x0C then [CHR 0x5C, CHR ''f'']
      else if c = CHR 0x0A then [CHR 0x5C, CHR ''n'']
      else if c = CHR 0x0D then [CHR 0x5C, CHR ''r'']
      else if c = CHR 0x09 then [CHR 0x5C, CHR ''t'']
      else if of_char c < (32::nat)
      then [CHR 0x5C, CHR ''u'', CHR ''0'', CHR ''0'',
            hex_digit (of_char c div 16), hex_digit (of_char c mod 16)]
      else [c])"

fun js_join :: "string \<Rightarrow> string list \<Rightarrow> string" where
  "js_join sep [] = []"
| "js_join sep [x] = x"
| "js_join sep (x # y # zs) = x @ sep @ js_join sep (y # zs)"

definition json_quote :: "string \<Rightarrow> string" where
  "json_quote x = [CHR 0x22] @ concat (map json_char x) @ [CHR 0x22]"

definition json_int :: "int \<Rightarrow> string" where
  "json_int i = (if i < 0 then CHR ''-'' # string_of_nat (nat (- i)) else string_of_nat (nat i))"

fun json_stringify :: "jsval \<Rightarrow> string option" where
  "json_stringify JUndefined = None"
| "json_stringify JNull = Some ''null''"
| "json_stringify (JBool b) = Some (if b then ''true'' else ''false'')"
| "json_stringify (JNum i) = Some (json_int i)"
| "json_stringify (JStr x) = Some (json_quote x)"
| "json_stringify (JArr vs) =
     Some (''['' @ js_join '','' (map (\<lambda>v. case json_stringify v of None \<Rightarrow> ''null'' | Some t \<Rightarrow> t) vs) @ '']'')"
| "json_stringify (JObj kvs) =
     Some (''{'' @ js_join '',''
                 (concat (map (\<lambda>kv. case json_stringify (snd kv) of
                                        None \<Rightarrow> []
                                      | Some t \<Rightarrow> [json_quote (fst kv) @ '':'' @ t]) kvs)) @ ''}'')"

record request =
  req_method :: string
  url :: string
  headers :: "(string \<times> string) list"
  req_body :: "string option"

definition build_request :: "string \<Rightarrow> api_service \<Rightarrow> endpoint \<Rightarrow> request" where
  "build_request base s e =
     (case endpoint_route e of (m, p, b) \<Rightarrow>
        \<lparr>req_method = m, url = base @ p, headers = getHeaders s,
         req_body = Option.bind b json_stringify\<rparr>)"

text \<open>An endpoint method: \<open>await fetch(url, {method, headers, body})\<close>, then
  \<open>this.handleResponse(response)\<close>; a rejected \<open>fetch\<close> (\<open>None\<close>) propagates.\<close>

definition api_call ::
  "(string \<Rightarrow> jsval option) \<Rightarrow> (request \<Rightarrow> http_response option) \<Rightarrow> string \<Rightarrow> api_service \<Rightarrow> endpoint
   \<Rightarrow> api_exception + api_response" where
  "api_call parse fetch base s e =
     (case fetch (build_request base s e) of
        None \<Rightarrow> Inl NetworkError
      | Some r \<Rightarrow> handleResponse parse r)"


section \<open>Scenario data\<close>

text \<open>A stub for \<open>JSON.parse\<close> on a few bodies (named by what they contain): an error
  object with a string detail, one with a list detail as validation errors have, and
  the literal \<open>null\<close>; every other body is not JSON.\<close>

definition demo_not_found :: jsval where
  "demo_not_found = JObj [(''detail'', JStr ''Not found'')]"

definition demo_parse :: "string \<Rightarrow> jsval option" where
  "demo_parse b =
     (if b = ''not-found'' then Some demo_not_found
      else if b = ''validation'' then Some (JObj [(''detail'', JArr [JStr ''field required''])])
      else if b = ''null'' then Some JNull
      else None)"

section \<open>Lemmas\<close>

lemma truthy_default [simp]: "truthy default_error"
  by (simp add: default_error_def)

lemma js_or_truthy: "truthy b \<Longrightarrow> truthy (js_or a b)"
  by (simp add: js_or_def)

lemma error_message_truthy: "truthy (error_message parse t)"
  by (auto simp: error_message_def Let_def js_or_def split: option.splits)

text \<open>C21: A failed response is never silently dropped: handleResponse returns no data and an error value that is truthy, whatever the body and whatever JSON.parse makes of it.\<close>

theorem error_always_reported:
  "\<not> ok r \<Longrightarrow> \<exists>e. handleResponse parse r = Inr \<lparr>data = None, error = Some e\<rparr> \<and> truthy e"
  by (simp add: handleResponse_def error_message_truthy)

text \<open>C22: When the error body is not JSON, or is the JSON null (whose .detail throws inside the try), the error is the raw body text, or the default message when the body is empty.\<close>

theorem unparsable_or_null_body:
  "parse t = None \<or> parse t = Some JNull \<or> parse t = Some JUndefined
   \<Longrightarrow> error_message parse t = (if t = [] then default_error else JStr t)"
  by (auto simp: error_message_def js_or_def)

text \<open>C23: The error is not always a string: a body whose detail is an array (as in validation errors) is returned as that array in the error field typed string.\<close>

theorem validation_detail_not_string:
  "parse t = Some (JObj [(''detail'', JArr ds)]) \<Longrightarrow> \<not> ok r \<Longrightarrow> body_text r = t
   \<Longrightarrow> handleResponse parse r = Inr \<lparr>data = None, error = Some (JArr ds)\<rparr>"
  by (simp add: handleResponse_def error_message_def)

text \<open>C24: A successful response whose body is not JSON (for instance an empty 204 body) makes handleResponse throw instead of returning {error}.\<close>

theorem ok_unparsable_throws:
  "ok r \<Longrightarrow> parse (body_text r) = None \<Longrightarrow> handleResponse parse r = Inl JsonSyntaxError"
  by (simp add: handleResponse_def)

lemma token_step_sync:
  "token (fst ss) = snd ss token_key \<Longrightarrow> token (fst (token_step ss o1)) = snd (token_step ss o1) token_key"
  by (cases o1) (simp_all add: setToken_def clearToken_def new_ApiService_def)

text \<open>C25: Starting from a service whose token mirrors localStorage, every sequence of setToken, clearToken and page reloads keeps the in-memory token equal to the stored one.\<close>

theorem token_storage_sync:
  "token (fst ss) = snd ss token_key \<Longrightarrow> token (fst (token_run ss os)) = snd (token_run ss os) token_key"
  by (induction os arbitrary: ss) (simp_all add: token_step_sync)

text \<open>C26: Round trip through storage: a token set before a reload is the token after it, and a cleared token stays cleared.\<close>

theorem token_survives_reload:
  "token (fst (token_run ss [SetToken t, Reload])) = Some t
   \<and> token (fst (token_run ss [ClearToken, Reload])) = None"
  by (simp add: setToken_def clearToken_def new_ApiService_def)

lemma getHeaders_auth_iff:
  "(''Authorization'', v) \<in> set (getHeaders s) \<longleftrightarrow> (\<exists>t. token s = Some t \<and> t \<noteq> [] \<and> v = ''Bearer '' @ t)"
proof (cases "token s")
  case None
  then show ?thesis by (simp add: getHeaders_def)
next
  case (Some t)
  then show ?thesis by (simp add: getHeaders_def)
qed

lemma append_suffix_neq:
  "\<not> suffix b a \<Longrightarrow> \<not> suffix a b \<Longrightarrow> xs @ a \<noteq> ys @ b"
  by (metis suffix_appendI suffix_append suffix_order.eq_iff suffix_same_cases)

lemma suffix_literal_iff: "suffix xs ys \<longleftrightarrow> prefix (rev xs) (rev ys)"
  by (simp add: suffix_to_prefix)

lemma auth_route_inj [simp]: "auth_route a = auth_route b \<longleftrightarrow> a = b"
  by (cases a; cases b) simp_all

lemma task_route_inj [simp]: "task_route a = task_route b \<longleftrightarrow> a = b"
  by (cases a; cases b) simp_all

lemma help_route_inj [simp]: "help_route a = help_route b \<longleftrightarrow> a = b"
  by (cases a; cases b) simp_all

lemma alert_route_inj [simp]: "alert_route a = alert_route b \<longleftrightarrow> a = b"
proof
  assume eq: "alert_route a = alert_route b"
  have ne: "\<not> suffix ''/toggle'' ''/acknowledge''" "\<not> suffix ''/acknowledge'' ''/toggle''"
    by (simp_all add: suffix_literal_iff)
  show "a = b"
  proof (cases a; cases b)
    fix n m
    assume "a = AcknowledgeAlert n" "b = ToggleAlertStatus m"
    with eq have "string_of_nat n @ ''/acknowledge'' = string_of_nat m @ ''/toggle''" by simp
    with ne show "a = b" using append_suffix_neq by blast
  next
    fix n m
    assume "a = ToggleAlertStatus n" "b = AcknowledgeAlert m"
    with eq have "string_of_nat n @ ''/toggle'' = string_of_nat m @ ''/acknowledge''" by simp
    with ne show "a = b" using append_suffix_neq by blast
  qed (use eq in simp_all)
qed simp

lemma community_route_inj [simp]: "community_route a = community_route b \<longleftrightarrow> a = b"
  by (cases a; cases b) simp_all

lemma auth_tag [simp]: "fst (snd (auth_route c)) ! 5 = CHR ''a''"
  by (cases c) simp_all

lemma task_tag [simp]:
  "fst (snd (task_route c)) ! 5 = (if c = GetPointsHistory then CHR ''p'' else CHR ''t'')"
  by (cases c) simp_all

lemma help_tag [simp]: "fst (snd (help_route c)) ! 5 = CHR ''h''"
  by (cases c) simp_all

lemma alert_tag [simp]: "fst (snd (alert_route c)) ! 5 = CHR ''g''"
  by (cases c) simp_all

lemma community_tag [simp]: "fst (snd (community_route c)) ! 5 = CHR ''c''"
  by (cases c) simp_all

lemma endpoint_route_inj:
  assumes eq: "endpoint_route e1 = endpoint_route e2"
  shows "e1 = e2"
  by (cases e1; cases e2) (insert arg_cong [OF eq, of "\<lambda>r. fst (snd r) ! 5"] eq, simp_all split: if_splits)


text \<open>C27: Every request starts with the JSON Content-Type header and carries an Authorization header exactly when the token is a non-empty string, with value Bearer followed by the token.\<close>

theorem request_auth_header:
  "hd (headers (build_request base s e)) = (''Content-Type'', ''application/json'')
   \<and> ((''Authorization'', v) \<in> set (headers (build_request base s e))
      \<longleftrightarrow> (\<exists>t. token s = Some t \<and> t \<noteq> [] \<and> v = ''Bearer '' @ t))"
proof -
  have hs: "headers (build_request base s e) = getHeaders s"
    by (simp add: build_request_def split: prod.splits)
  show ?thesis unfolding hs by (simp add: getHeaders_auth_iff) (simp add: getHeaders_def)
qed

lemma erase_payload_route:
  "endpoint_route (erase_payload e) =
     (fst (endpoint_route e), fst (snd (endpoint_route e)), map_option (\<lambda>_. JNull) (snd (snd (endpoint_route e))))"
  by (induction e rule: erase_payload.induct) simp_all

lemma body_presence_determined:
  assumes "fst (endpoint_route e1) = fst (endpoint_route e2)"
    and path: "fst (snd (endpoint_route e1)) = fst (snd (endpoint_route e2))"
  shows "map_option (\<lambda>_. JNull) (snd (snd (endpoint_route e1))) = map_option (\<lambda>_. JNull) (snd (snd (endpoint_route e2)))"
  using assms
  by (cases e1; cases e2) (insert arg_cong [OF path, of "\<lambda>p. p ! 5"],
      simp_all split: if_splits, (rename_tac c1 c2, case_tac c1; case_tac c2; simp)+)

lemma same_call_shape_iff:
  "erase_payload e1 = erase_payload e2 \<longleftrightarrow>
     fst (endpoint_route e1) = fst (endpoint_route e2) \<and> fst (snd (endpoint_route e1)) = fst (snd (endpoint_route e2))"
proof
  assume "erase_payload e1 = erase_payload e2"
  then show "fst (endpoint_route e1) = fst (endpoint_route e2) \<and> fst (snd (endpoint_route e1)) = fst (snd (endpoint_route e2))"
    using arg_cong [where f = endpoint_route, OF \<open>erase_payload e1 = erase_payload e2\<close>]
    unfolding erase_payload_route by (simp add: prod_eq_iff)
next
  assume "fst (endpoint_route e1) = fst (endpoint_route e2) \<and> fst (snd (endpoint_route e1)) = fst (snd (endpoint_route e2))"
  then have "endpoint_route (erase_payload e1) = endpoint_route (erase_payload e2)"
    using body_presence_determined [of e1 e2] by (simp add: erase_payload_route)
  then show "erase_payload e1 = erase_payload e2" by (rule endpoint_route_inj)
qed

text \<open>C28: A request identifies the call up to its payload's JSON text: two calls send the same request exactly when they call the same method with the same ids and their payloads stringify alike; so calls that differ only in members set to undefined, such as updateTask('1', {status: undefined}) and updateTask('1', {}), send the same request.\<close>

theorem same_request_iff:
  "(build_request base s e1 = build_request base s e2 \<longleftrightarrow>
     erase_payload e1 = erase_payload e2
     \<and> Option.bind (snd (snd (endpoint_route e1))) json_stringify
       = Option.bind (snd (snd (endpoint_route e2))) json_stringify)
   \<and> build_request base s (Tasks (UpdateTask i (JObj [(''status'', JUndefined)])))
     = build_request base s (Tasks (UpdateTask i (JObj [])))"
proof
  show "build_request base s e1 = build_request base s e2 \<longleftrightarrow>
     erase_payload e1 = erase_payload e2
     \<and> Option.bind (snd (snd (endpoint_route e1))) json_stringify
       = Option.bind (snd (snd (endpoint_route e2))) json_stringify"
    unfolding same_call_shape_iff by (auto simp: build_request_def split: prod.splits)
  show "build_request base s (Tasks (UpdateTask i (JObj [(''status'', JUndefined)])))
     = build_request base s (Tasks (UpdateTask i (JObj [])))"
    by (simp add: build_request_def)
qed

section \<open>Witnesses\<close>

theorem error_always_reported_witness:
  "\<not> ok \<lparr>ok = False, body_text = ''Bad Gateway''\<rparr>
   \<and> (\<exists>e. handleResponse demo_parse \<lparr>ok = False, body_text = ''Bad Gateway''\<rparr>
          = Inr \<lparr>data = None, error = Some e\<rparr> \<and> truthy e)"
proof -
  have h: "\<not> ok \<lparr>ok = False, body_text = ''Bad Gateway''\<rparr>" by simp
  show ?thesis using h error_always_reported [OF h] by blast
qed

theorem unparsable_or_null_body_witness:
  "demo_parse ''null'' = Some JNull \<and> error_message demo_parse ''null'' = JStr ''null''"
proof -
  have h: "demo_parse ''null'' = None \<or> demo_parse ''null'' = Some JNull
      \<or> demo_parse ''null'' = Some JUndefined"
    by (simp add: demo_parse_def)
  show ?thesis using unparsable_or_null_body [of demo_parse "''null''", OF h] by (simp add: demo_parse_def)
qed

theorem validation_detail_not_string_witness:
  "demo_parse ''validation'' = Some (JObj [(''detail'', JArr [JStr ''field required''])])
   \<and> handleResponse demo_parse \<lparr>ok = False, body_text = ''validation''\<rparr>
       = Inr \<lparr>data = None, error = Some (JArr [JStr ''field required''])\<rparr>"
proof -
  have h: "demo_parse ''validation'' = Some (JObj [(''detail'', JArr [JStr ''field required''])])"
    "\<not> ok \<lparr>ok = False, body_text = ''validation''\<rparr>"
    "body_text \<lparr>ok = False, body_text = ''validation''\<rparr> = ''validation''"
    by (simp_all add: demo_parse_def)
  show ?thesis using h validation_detail_not_string [of demo_parse, OF h] by blast
qed

theorem ok_unparsable_throws_witness:
  "ok \<lparr>ok = True, body_text = []\<rparr> \<and> demo_parse [] = None
   \<and> handleResponse demo_parse \<lparr>ok = True, body_text = []\<rparr> = Inl JsonSyntaxError"
proof -
  have h: "ok \<lparr>ok = True, body_text = []\<rparr>" "demo_parse (body_text \<lparr>ok = True, body_text = []\<rparr>) = None"
    by (simp_all add: demo_parse_def)
  show ?thesis using h ok_unparsable_throws [of _ demo_parse, OF h] by simp
qed

theorem token_storage_sync_witness:
  "token (fst (new_ApiService Map.empty, Map.empty)) = snd (new_ApiService Map.empty, Map.empty) token_key
   \<and> token (fst (token_run (new_ApiService Map.empty, Map.empty) [SetToken ''abc'', Reload, ClearToken]))
     = snd (token_run (new_ApiService Map.empty, Map.empty) [SetToken ''abc'', Reload, ClearToken]) token_key"
proof -
  have h: "token (fst (new_ApiService Map.empty, Map.empty)) = snd (new_ApiService Map.empty, Map.empty) token_key"
    by (simp add: new_ApiService_def)
  show ?thesis using h token_storage_sync [OF h] by blast
qed

end
