(* ===== verification/Buddies.thy ===== *)
theory Buddies
  imports Data
begin

text \<open>
  The buddies page, \<open>src/pages/BuddiesPage.tsx\<close>: the search box and status filter
  over the mock buddies, the check-in modal with its form (\<open>checkInData\<close>), the
  profile modal, and the \<open>window.alert\<close> messages the page shows (kept in order, as
  the only output of its buttons). The \<open>Modal\<close> component is not among the sources;
  the model assumes that an open modal covers the page, so the cards and filters can be
  used only while both modals are closed.
\<close>

section \<open>State\<close>

record check_in_data =
  mood :: string
  checkin_notes :: string
  needsSupport :: bool

definition default_check_in :: check_in_data where
  "default_check_in = \<lparr>mood = ''good'', checkin_notes = [], needsSupport = False\<rparr>"

record buddies_state =
  bp_buddies :: "buddy list"
  bp_searchQuery :: string
  statusFilter :: string
  selectedBuddy :: "buddy option"
  showCheckInModal :: bool
  showProfileModal :: bool
  checkInData :: check_in_data
  shown_alerts :: "string list"

definition buddies_init :: "buddy list \<Rightarrow> buddies_state" where
  "buddies_init bs =
     \<lparr>bp_buddies = bs, bp_searchQuery = [], statusFilter = ''all'', selectedBuddy = None,
      showCheckInModal = False, showProfileModal = False, checkInData = default_check_in,
      shown_alerts = []\<rparr>"

definition moodOptions :: "string list" where
  "moodOptions = [''great'', ''good'', ''okay'', ''low'', ''distressed'']"

section \<open>The filtered list\<close>

definition filteredBuddies :: "buddies_state \<Rightarrow> buddy list" where
  "filteredBuddies s =
     filter (\<lambda>b. (str_includes (to_lower (name b)) (to_lower (bp_searchQuery s))
                   \<or> (case location b of
                        None \<Rightarrow> False
                      | Some l \<Rightarrow> str_includes (to_lower l) (to_lower (bp_searchQuery s))))
                 \<and> (statusFilter s = ''all'' \<or> status_name (status b) = statusFilter s))
       (bp_buddies s)"

section \<open>Handlers\<close>

definition handleCheckIn :: "buddy \<Rightarrow> buddies_state \<Rightarrow> buddies_state" where
  "handleCheckIn b s = s\<lparr>selectedBuddy := Some b, showCheckInModal := True\<rparr>"

definition handleViewProfile :: "buddy \<Rightarrow> buddies_state \<Rightarrow> buddies_state" where
  "handleViewProfile b s = s\<lparr>selectedBuddy := Some b, showProfileModal := True\<rparr>"

definition handleSubmitCheckIn :: "buddies_state \<Rightarrow> buddies_state" where
  "handleSubmitCheckIn s =
     s\<lparr>shown_alerts := shown_alerts s @
          [''Check-in recorded for ''
           @ (case selectedBuddy s of None \<Rightarrow> ''undefined'' | Some b \<Rightarrow> name b) @ ''!''],
       showCheckInModal := False,
       checkInData := default_check_in\<rparr>"

definition closeCheckIn :: "buddies_state \<Rightarrow> buddies_state" where
  "closeCheckIn s = s\<lparr>showCheckInModal := False\<rparr>"

definition closeProfile :: "buddies_state \<Rightarrow> buddies_state" where
  "closeProfile s = s\<lparr>showProfileModal := False\<rparr>"

definition profileCheckIn :: "buddies_state \<Rightarrow> buddies_state" where
  "profileCheckIn s =
     (case selectedBuddy s of None \<Rightarrow> s | Some b \<Rightarrow> handleCheckIn b (closeProfile s))"

definition setMood :: "string \<Rightarrow> buddies_state \<Rightarrow> buddies_state" where
  "setMood m s = s\<lparr>checkInData := (checkInData s)\<lparr>mood := m\<rparr>\<rparr>"

definition setNotes :: "string \<Rightarrow> buddies_state \<Rightarrow> buddies_state" where
  "setNotes n s = s\<lparr>checkInData := (checkInData s)\<lparr>checkin_notes := n\<rparr>\<rparr>"

definition setNeedsSupport :: "bool \<Rightarrow> buddies_state \<Rightarrow> buddies_state" where
  "setNeedsSupport f s = s\<lparr>checkInData := (checkInData s)\<lparr>needsSupport := f\<rparr>\<rparr>"

definition alert_message :: "string \<Rightarrow> buddies_state \<Rightarrow> buddies_state" where
  "alert_message m s = s\<lparr>shown_alerts := shown_alerts s @ [m]\<rparr>"

section \<open>The profile modal\<close>

text \<open>What the profile modal shows of a buddy: the initial \<open>name[0]\<close>, name,
  location, the five rating stars (the first four filled, whatever the buddy), phone,
  status, the skills (\<open>skills || []\<close>) and the check-in count.\<close>

record profile_card =
  pc_initial :: "char option"
  pc_name :: string
  pc_location :: "string option"
  pc_stars :: "bool list"
  pc_phone :: string
  pc_status :: string
  pc_skills :: "string list"
  pc_checkIns :: nat

definition profile_card :: "buddy \<Rightarrow> profile_card" where
  "profile_card b =
     \<lparr>pc_initial = (case name b of [] \<Rightarrow> None | x # _ \<Rightarrow> Some x),
      pc_name = name b,
      pc_location = location b,
      pc_stars = map (\<lambda>star. star \<le> (4::nat)) [1, 2, 3, 4, 5],
      pc_phone = phone b,
      pc_status = status_name (status b),
      pc_skills = (case skills b of None \<Rightarrow> [] | Some xs \<Rightarrow> xs),
      pc_checkIns = checkInCount b\<rparr>"

text \<open>The modal is open on \<open>showProfileModal\<close> and renders its content only when a
  buddy is selected (\<open>selectedBuddy && ...\<close>).\<close>

definition profile_view :: "buddies_state \<Rightarrow> profile_card option" where
  "profile_view s = (if showProfileModal s then map_option profile_card (selectedBuddy s) else None)"

section \<open>Events and reachable states\<close>

datatype buddies_event =
    BSearch string | BStatus string | BCheckIn buddy | BProfile buddy | BMessage buddy
  | BCall buddy | BMood string | BNotes string | BSupport bool | BSubmit | BCancel
  | BCloseProfile | BProfileCheckIn

text \<open>The action row of the profile modal: each button with the event its click
  raises; the Message and Call buttons have no \<open>onClick\<close>.\<close>

definition profile_actions :: "(string \<times> buddies_event option) list" where
  "profile_actions = [(''Check In'', Some BProfileCheckIn), (''Message'', None), (''Call buddy'', None)]"

fun buddies_handle :: "buddies_state \<Rightarrow> buddies_event \<Rightarrow> buddies_state" where
  "buddies_handle s (BSearch q) = s\<lparr>bp_searchQuery := q\<rparr>"
| "buddies_handle s (BStatus f) = s\<lparr>statusFilter := f\<rparr>"
| "buddies_handle s (BCheckIn b) = handleCheckIn b s"
| "buddies_handle s (BProfile b) = handleViewProfile b s"
| "buddies_handle s (BMessage b) = alert_message (''Opening chat with '' @ name b) s"
| "buddies_handle s (BCall b) = alert_message (''Calling '' @ name b) s"
| "buddies_handle s (BMood m) = setMood m s"
| "buddies_handle s (BNotes n) = setNotes n s"
| "buddies_handle s (BSupport f) = setNeedsSupport f s"
| "buddies_handle s BSubmit = handleSubmitCheckIn s"
| "buddies_handle s BCancel = closeCheckIn s"
| "buddies_handle s BCloseProfile = closeProfile s"
| "buddies_handle s BProfileCheckIn = profileCheckIn s"

text \<open>Which control is on screen: the page's controls while no modal is open, the
  form's while the check-in modal is open, the profile's while it is open.\<close>

fun buddies_enabled :: "buddies_state \<Rightarrow> buddies_event \<Rightarrow> bool" where
  "buddies_enabled s (BMood m) = (showCheckInModal s \<and> m \<in> set moodOptions)"
| "buddies_enabled s (BNotes n) = showCheckInModal s"
| "buddies_enabled s (BSupport f) = showCheckInModal s"
| "buddies_enabled s BSubmit = showCheckInModal s"
| "buddies_enabled s BCancel = showCheckInModal s"
| "buddies_enabled s BCloseProfile = showProfileModal s"
| "buddies_enabled s BProfileCheckIn = (showProfileModal s \<and> selectedBuddy s \<noteq> None)"
| "buddies_enabled s (BStatus f) =
     (\<not> showCheckInModal s \<and> \<not> showProfileModal s \<and> f \<in> {''all'', ''online'', ''away'', ''offline''})"
| "buddies_enabled s (BSearch q) = (\<not> showCheckInModal s \<and> \<not> showProfileModal s)"
| "buddies_enabled s (BCheckIn b) =
     (\<not> showCheckInModal s \<and> \<not> showProfileModal s \<and> b \<in> set (filteredBuddies s))"
| "buddies_enabled s (BProfile b) =
     (\<not> showCheckInModal s \<and> \<not> showProfileModal s \<and> b \<in> set (filteredBuddies s))"
| "buddies_enabled s (BMessage b) =
     (\<not> showCheckInModal s \<and> \<not> showProfileModal s \<and> b \<in> set (filteredBuddies s))"
| "buddies_enabled s (BCall b) =
     (\<not> showCheckInModal s \<and> \<not> showProfileModal s \<and> b \<in> set (filteredBuddies s))"

fun buddies_run :: "buddies_state \<Rightarrow> buddies_event list \<Rightarrow> buddies_state" where
  "buddies_run s [] = s"
| "buddies_run s (e # es) = buddies_run (buddies_handle s e) es"

fun buddies_run_enabled :: "buddies_state \<Rightarrow> buddies_event list \<Rightarrow> bool" where
  "buddies_run_enabled s [] = True"
| "buddies_run_enabled s (e # es) =
     (buddies_enabled s e \<and> buddies_run_enabled (buddies_handle s e) es)"

inductive buddies_reach :: "buddies_state \<Rightarrow> bool" where
  init: "buddies_reach (buddies_init bs)"
| step: "buddies_reach s \<Longrightarrow> buddies_enabled s e \<Longrightarrow> buddies_reach (buddies_handle s e)"

definition modal_inv :: "buddies_state \<Rightarrow> bool" where
  "modal_inv s \<longleftrightarrow>
     (showCheckInModal s \<longrightarrow> selectedBuddy s \<noteq> None)
     \<and> (showProfileModal s \<longrightarrow> selectedBuddy s \<noteq> None)
     \<and> \<not> (showCheckInModal s \<and> showProfileModal s)"


section \<open>Lemmas\<close>

lemmas buddies_handler_defs = handleCheckIn_def handleViewProfile_def handleSubmitCheckIn_def
  closeCheckIn_def closeProfile_def profileCheckIn_def setMood_def setNotes_def
  setNeedsSupport_def alert_message_def

lemma buddies_handle_inv:
  "modal_inv s \<Longrightarrow> buddies_enabled s e \<Longrightarrow> modal_inv (buddies_handle s e)"
  by (cases e) (auto simp: modal_inv_def buddies_handler_defs split: option.splits)

lemma buddies_reach_inv: "buddies_reach s \<Longrightarrow> modal_inv s"
proof (induction rule: buddies_reach.induct)
  case (init bs)
  show ?case by (simp add: modal_inv_def buddies_init_def)
next
  case (step s e)
  then show ?case by (blast intro: buddies_handle_inv)
qed

lemma profile_view_shown:
  "buddies_reach s \<Longrightarrow> showProfileModal s \<Longrightarrow> \<exists>b. selectedBuddy s = Some b \<and> profile_view s = Some (profile_card b)"
  by (auto simp: profile_view_def modal_inv_def dest!: buddies_reach_inv)

lemma profile_card_skills_default: "skills b = None \<Longrightarrow> pc_skills (profile_card b) = []"
  by (simp add: profile_card_def)

lemma status_name_inj [simp]: "status_name a = status_name b \<longleftrightarrow> a = b"
  by (cases a; cases b) simp_all

lemma status_name_not_all [simp]: "status_name st \<noteq> ''all''"
  by (cases st) simp_all

lemma status_name_cases: "status_name st \<in> {''online'', ''away'', ''offline''}"
  by (cases st) simp_all

lemma profile_actions_handled: "[a \<leftarrow> profile_actions. snd a \<noteq> None] = [(''Check In'', Some BProfileCheckIn)]"
  by (simp add: profile_actions_def)

lemma buddies_run_reach:
  "buddies_reach s \<Longrightarrow> buddies_run_enabled s es \<Longrightarrow> buddies_reach (buddies_run s es)"
  by (induction es arbitrary: s) (auto intro: buddies_reach.step)

text \<open>C30: Whenever the check-in modal is open in a reachable state of the buddies page, a buddy is selected, and submitting shows the alert Check-in recorded for that buddy (never for undefined).\<close>

theorem check_in_names_buddy:
  "buddies_reach s \<Longrightarrow> showCheckInModal s \<Longrightarrow>
   \<exists>b. selectedBuddy s = Some b
       \<and> last (shown_alerts (handleSubmitCheckIn s)) = ''Check-in recorded for '' @ name b @ ''!''"
  by (auto simp: handleSubmitCheckIn_def modal_inv_def dest!: buddies_reach_inv)

text \<open>C32: Submitting a check-in ignores the form: the resulting page state is the same whatever mood, notes and needs-support flag were entered, so a flagged check-in is recorded nowhere (the specification aggregates check-in flags as notifications).\<close>

theorem submit_ignores_draft:
  "handleSubmitCheckIn (s\<lparr>checkInData := d1\<rparr>) = handleSubmitCheckIn (s\<lparr>checkInData := d2\<rparr>)"
  by (simp add: handleSubmitCheckIn_def)

text \<open>C31: Cancelling the check-in modal keeps the draft: whatever mood, notes and needs-support flag were entered, after cancelling and opening the check-in on any buddy the modal shows that buddy with the same draft pre-filled; only submitting resets the draft to its default.\<close>

theorem cancelled_draft_carries_over:
  "checkInData (buddies_run s [BCancel, BCheckIn b]) = checkInData s
   \<and> selectedBuddy (buddies_run s [BCancel, BCheckIn b]) = Some b
   \<and> showCheckInModal (buddies_run s [BCancel, BCheckIn b])
   \<and> checkInData (buddies_run s [BSubmit, BCheckIn b]) = default_check_in"
  by (simp add: buddies_handler_defs)

text \<open>C29: The buddy list filters as its controls say: with the empty search and the filter all it lists every buddy in order; filtering by a status keeps exactly the buddies of that status among the search matches; and a filter value that is neither all nor a status lists nothing.\<close>

theorem buddy_filter_by_status:
  "filteredBuddies (s\<lparr>bp_searchQuery := [], statusFilter := ''all''\<rparr>) = bp_buddies s
   \<and> filteredBuddies (s\<lparr>statusFilter := status_name st\<rparr>)
       = filter (\<lambda>b. status b = st) (filteredBuddies (s\<lparr>statusFilter := ''all''\<rparr>))
   \<and> (f \<notin> {''all'', ''online'', ''away'', ''offline''} \<longrightarrow> filteredBuddies (s\<lparr>statusFilter := f\<rparr>) = [])"
proof (intro conjI impI)
  show "filteredBuddies (s\<lparr>bp_searchQuery := [], statusFilter := ''all''\<rparr>) = bp_buddies s"
    by (simp add: filteredBuddies_def to_lower_def)
  show "filteredBuddies (s\<lparr>statusFilter := status_name st\<rparr>)
       = filter (\<lambda>b. status b = st) (filteredBuddies (s\<lparr>statusFilter := ''all''\<rparr>))"
    by (auto simp: filteredBuddies_def filter_filter intro!: filter_cong split: option.splits)
  assume "f \<notin> {''all'', ''online'', ''away'', ''offline''}"
  then show "filteredBuddies (s\<lparr>statusFilter := f\<rparr>) = []"
    using status_name_cases by (fastforce simp: filteredBuddies_def filter_empty_conv)
qed

section \<open>Witnesses\<close>

theorem check_in_names_buddy_witness:
  "let s = buddies_run (buddies_init [demo_maria]) [BCheckIn demo_maria] in
   buddies_reach s \<and> showCheckInModal s
   \<and> (\<exists>b. selectedBuddy s = Some b
       \<and> last (shown_alerts (handleSubmitCheckIn s)) = ''Check-in recorded for '' @ name b @ ''!'')"
proof -
  let ?s = "buddies_run (buddies_init [demo_maria]) [BCheckIn demo_maria]"
  have r: "buddies_reach ?s"
    by (rule buddies_run_reach [OF buddies_reach.init])
       (simp add: buddies_init_def filteredBuddies_def demo_maria_def to_lower_def)
  have m: "showCheckInModal ?s" by (simp add: buddies_handler_defs)
  show ?thesis using r m check_in_names_buddy [OF r m] unfolding Let_def by blast
qed

theorem buddy_filter_by_status_witness:
  "''Online'' \<notin> {''all'', ''online'', ''away'', ''offline''}
   \<and> filteredBuddies ((buddies_init [demo_maria, demo_jose])\<lparr>statusFilter := ''Online''\<rparr>) = []
   \<and> filteredBuddies ((buddies_init [demo_maria, demo_jose])\<lparr>statusFilter := status_name Away\<rparr>) = [demo_jose]"
proof -
  let ?s = "buddies_init [demo_maria, demo_jose]"
  have all: "filteredBuddies (?s\<lparr>statusFilter := ''all''\<rparr>) = [demo_maria, demo_jose]"
    by (simp add: filteredBuddies_def buddies_init_def to_lower_def)
  have ne: "''Online'' \<notin> {''all'', ''online'', ''away'', ''offline''}" by simp
  show ?thesis
    using ne all buddy_filter_by_status [of ?s Away "''Online''"]
    by (simp add: demo_maria_def demo_jose_def)
qed

end
