(* ===== verification/Dashboard.thy ===== *)
theory Dashboard
  imports Data
begin

text \<open>
  The dashboard, \<open>src/pages/DashboardPage.tsx\<close>: the task store it shares with the
  rest of the application (\<open>useTasksStore\<close>), the effect that seeds that store with
  the mock tasks, and everything the page derives from the signed-in user, the store
  and the mock data: the four statistics, the pending tasks, the recent check-ins,
  the active buddies, the rank progress and the hotline links. The page has no
  handlers; its only state change is the effect, whose re-runs are modelled as a loop
  that may not end (\<open>settle_tasks\<close>), and which is shown to end after at most two
  runs. The helpers \<open>getRankProgress\<close> and \<open>getMoodEmoji\<close> of
  \<open>src/utils/helpers\<close> and the mock data of \<open>src/data/mockData\<close> are not among the
  sources: they are fields of the environment the page reads.
\<close>

section \<open>Data the page reads\<close>

record task =
  task_id :: string
  task_status :: string

record check_in =
  ci_id :: string
  ci_buddyId :: uid
  ci_date :: string
  ci_mood :: string
  ci_notes :: string

record hotline =
  hl_name :: string
  hl_number :: string

record app_user =
  firstName :: string
  points :: int
  rank :: string

record rank_progress =
  rp_current :: int
  rp_next :: int
  percentage :: int

text \<open>What the page reads besides the task store: \<open>useAuth().user\<close>, the mock data,
  the ISO rendering of \<open>new Date()\<close>, and the two helpers.\<close>

record dashboard_env =
  d_user :: "app_user option"
  d_mockBuddies :: "buddy list"
  d_mockTasks :: "task list"
  d_mockCheckIns :: "check_in list"
  d_emergencyHotlines :: "hotline list"
  d_nowISO :: string
  d_getRankProgress :: "int \<Rightarrow> string \<Rightarrow> rank_progress"
  d_getMoodEmoji :: "string \<Rightarrow> string"

section \<open>The seeding effect\<close>

text \<open>One run of the effect on \<open>[tasks.length, setTasks]\<close>: an empty store is
  replaced by the mock tasks.\<close>

definition init_tasks_effect :: "dashboard_env \<Rightarrow> task list \<Rightarrow> task list" where
  "init_tasks_effect env ts = (if length ts = 0 then d_mockTasks env else ts)"

text \<open>React runs the effect after the first render and again after every render in
  which \<open>tasks.length\<close> changed (\<open>setTasks\<close> is stable). \<open>None\<close> is a page that
  keeps re-rendering.\<close>

partial_function (option) settle_tasks :: "dashboard_env \<Rightarrow> task list \<Rightarrow> task list option" where
  "settle_tasks env ts =
     (let ts' = init_tasks_effect env ts
      in if length ts' = length ts then Some ts' else settle_tasks env ts')"

section \<open>Derived values\<close>

text \<open>\<open>new Date().toISOString().split('T')[0]\<close>: the UTC date part.\<close>

definition today :: "dashboard_env \<Rightarrow> string" where
  "today env = takeWhile (\<lambda>c. c \<noteq> CHR ''T'') (d_nowISO env)"

definition stats :: "dashboard_env \<Rightarrow> task list \<Rightarrow> (string \<times> int) list" where
  "stats env ts =
     [(''Active Buddies'',
         int (length (filter (\<lambda>b. status_name (status b) = ''online'') (d_mockBuddies env)))),
      (''Check-ins Today'',
         int (length (filter (\<lambda>c. ci_date c = today env) (d_mockCheckIns env)))),
      (''Bayanihan Points'',
         (case d_user env of None \<Rightarrow> 0 | Some u \<Rightarrow> if points u \<noteq> 0 then points u else 0)),
      (''Tasks Completed'',
         int (length (filter (\<lambda>t. task_status t = ''completed'') ts)))]"

definition pendingTasks :: "task list \<Rightarrow> task list" where
  "pendingTasks ts = take 3 (filter (\<lambda>t. task_status t = ''pending'') ts)"

definition recentCheckIns :: "dashboard_env \<Rightarrow> check_in list" where
  "recentCheckIns env = take 5 (d_mockCheckIns env)"

definition activeBuddies :: "dashboard_env \<Rightarrow> buddy list" where
  "activeBuddies env = take 4 (filter (\<lambda>b. status_name (status b) \<noteq> ''offline'') (d_mockBuddies env))"

definition rankProgress :: "dashboard_env \<Rightarrow> rank_progress" where
  "rankProgress env =
     (case d_user env of
        None \<Rightarrow> \<lparr>rp_current = 0, rp_next = 100, percentage = 0\<rparr>
      | Some u \<Rightarrow> d_getRankProgress env (points u) (rank u))"

section \<open>What the page shows\<close>

text \<open>A row of Recent Check-ins: \<open>buddy?.name[0]\<close>, \<open>buddy?.name\<close> (nothing
  when no buddy has the check-in's id, or the name is empty), the mood's emoji and
  the notes.\<close>

record checkin_row =
  row_initial :: "char option"
  row_name :: "string option"
  row_emoji :: string
  row_notes :: string

definition checkin_row :: "dashboard_env \<Rightarrow> check_in \<Rightarrow> checkin_row" where
  "checkin_row env c =
     (let b = find (\<lambda>b. buddy_id b = ci_buddyId c) (d_mockBuddies env)
      in \<lparr>row_initial = (case b of None \<Rightarrow> None
                                | Some b \<Rightarrow> (case name b of [] \<Rightarrow> None | x # _ \<Rightarrow> Some x)),
          row_name = map_option name b,
          row_emoji = d_getMoodEmoji env (ci_mood c),
          row_notes = ci_notes c\<rparr>)"

text \<open>A row of Active Buddies with the colour of its status dot.\<close>

definition buddy_row :: "buddy \<Rightarrow> buddy \<times> string" where
  "buddy_row b = (b, if status_name (status b) = ''online'' then ''bg-green-500'' else ''bg-yellow-500'')"

text \<open>A hotline link: \<open>tel:\<close> and the number with every \<open>\s\<close> removed.\<close>

definition hotline_href :: "hotline \<Rightarrow> string" where
  "hotline_href h = ''tel:'' @ filter (\<lambda>c. \<not> is_ws c) (hl_number h)"

text \<open>The Pending Tasks card: the task cards, or the note that all tasks are done.\<close>

datatype pending_section = TaskCards "task list" | AllTasksCompleted

definition pending_section :: "task list \<Rightarrow> pending_section" where
  "pending_section ts = (if length (pendingTasks ts) > 0 then TaskCards (pendingTasks ts) else AllTasksCompleted)"

text \<open>The Quick Actions card: label and target of each link.\<close>

definition quick_actions :: "(string \<times> string) list" where
  "quick_actions = [(''Find Buddy'', ''/buddies''), (''New Task'', ''/tasks''), (''Resources'', ''/resources'')]"

record dashboard_view =
  v_greeting :: string
  v_stats :: "(string \<times> int) list"
  v_rank :: rank_progress
  v_pending :: "task list"
  v_pending_section :: pending_section
  v_recent :: "checkin_row list"
  v_active :: "(buddy \<times> string) list"
  v_hotlines :: "(string \<times> string \<times> string) list"
  v_quick_actions :: "(string \<times> string) list"

definition dashboard_view :: "dashboard_env \<Rightarrow> task list \<Rightarrow> dashboard_view" where
  "dashboard_view env ts =
     \<lparr>v_greeting = ''Magandang Araw, '' @ (case d_user env of None \<Rightarrow> [] | Some u \<Rightarrow> firstName u) @ ''!'',
      v_stats = stats env ts,
      v_rank = rankProgress env,
      v_pending = pendingTasks ts,
      v_pending_section = pending_section ts,
      v_recent = map (checkin_row env) (take 3 (recentCheckIns env)),
      v_active = map buddy_row (take 3 (activeBuddies env)),
      v_hotlines = map (\<lambda>h. (hl_name h, hl_number h, hotline_href h))
                     (take 3 (d_emergencyHotlines env)),
      v_quick_actions = quick_actions\<rparr>"

text \<open>The page after mounting: the effect has settled, and the view is rendered from
  the settled store.\<close>

definition dashboard_mount :: "dashboard_env \<Rightarrow> task list \<Rightarrow> (task list \<times> dashboard_view) option" where
  "dashboard_mount env ts =
     (case settle_tasks env ts of None \<Rightarrow> None | Some ts' \<Rightarrow> Some (ts', dashboard_view env ts'))"

section \<open>Scenario data\<close>

definition demo_env :: dashboard_env where
  "demo_env =
     \<lparr>d_user = None, d_mockBuddies = [demo_maria, demo_jose], d_mockTasks = [],
      d_mockCheckIns = [], d_emergencyHotlines = [], d_nowISO = ''2026-11-09T10:00:00.000Z'',
      d_getRankProgress = (\<lambda>p r. \<lparr>rp_current = p, rp_next = 100, percentage = 0\<rparr>),
      d_getMoodEmoji = (\<lambda>m. m)\<rparr>"


section \<open>Lemmas\<close>

text \<open>C33: Mounting the dashboard terminates: from every store the re-runs of the seeding effect end, after at most two runs, with the mock tasks when the store was empty and with the store unchanged otherwise, and the page renders from that store.\<close>

theorem mount_settles:
  "dashboard_mount env ts =
     Some (if ts = [] then d_mockTasks env else ts,
           dashboard_view env (if ts = [] then d_mockTasks env else ts))"
proof -
  have "settle_tasks env ts = Some (if ts = [] then d_mockTasks env else ts)"
  proof (cases "ts = []")
    case False
    then show ?thesis by (subst settle_tasks.simps) (simp add: init_tasks_effect_def)
  next
    case True
    show ?thesis
    proof (cases "d_mockTasks env = []")
      case True
      with \<open>ts = []\<close> show ?thesis by (subst settle_tasks.simps) (simp add: init_tasks_effect_def)
    next
      case False
      then have "settle_tasks env (d_mockTasks env) = Some (d_mockTasks env)"
        by (subst settle_tasks.simps) (simp add: init_tasks_effect_def)
      with False \<open>ts = []\<close> show ?thesis by (subst settle_tasks.simps) (simp add: init_tasks_effect_def)
    qed
  qed
  then show ?thesis by (simp add: dashboard_mount_def)
qed

lemma pending_section_done_iff:
  "pending_section ts = AllTasksCompleted \<longleftrightarrow> (\<forall>t \<in> set ts. task_status t \<noteq> ''pending'')"
  by (auto simp: pending_section_def pendingTasks_def filter_empty_conv)

lemma hotline_href_no_ws: "c \<in> set (hotline_href h) \<Longrightarrow> \<not> is_ws c"
  by (auto simp: hotline_href_def is_ws_def)

lemma status_name_online_iff [simp]: "status_name st = ''online'' \<longleftrightarrow> st = Online"
  by (cases st) simp_all

lemma status_name_offline_iff [simp]: "status_name st = ''offline'' \<longleftrightarrow> st = Offline"
  by (cases st) simp_all

lemma online_le_not_offline:
  "length (filter (\<lambda>b. status b = Online) bs) \<le> length (filter (\<lambda>b. status b \<noteq> Offline) bs)"
  by (induction bs) auto

lemma online_eq_not_offline_iff:
  "length (filter (\<lambda>b. status b = Online) bs) = length (filter (\<lambda>b. status b \<noteq> Offline) bs)
     \<longleftrightarrow> list_all (\<lambda>b. status b \<noteq> Away) bs"
proof (induction bs)
  case (Cons b bs)
  have "length (filter (\<lambda>b. status b = Online) bs) \<noteq> Suc (length (filter (\<lambda>b. status b \<noteq> Offline) bs))"
    using online_le_not_offline [of bs] by simp
  with Cons show ?case by (cases "status b") simp_all
qed simp

lemma prefix_take_min: "prefix (take n xs) xs \<and> length (take n xs) = min n (length xs)"
  by (simp add: take_is_prefix)

text \<open>C34: The dashboard shows the first tasks, check-ins, buddies and hotlines of its data, never more than three of each: the pending tasks shown are the first min 3 n of the n pending tasks of the store, in store order; the check-in rows are those of the first min 3 n of the n mock check-ins; the buddy rows are the first min 3 n of the n buddies that are not offline; the hotlines are the first min 3 n of the n hotlines; and there are exactly four statistics.\<close>

theorem dashboard_lists_bounded:
  "let V = dashboard_view env ts;
       P = filter (\<lambda>t. task_status t = ''pending'') ts;
       A = filter (\<lambda>b. status b \<noteq> Offline) (d_mockBuddies env);
       C = d_mockCheckIns env; H = d_emergencyHotlines env in
     prefix (v_pending V) P \<and> length (v_pending V) = min 3 (length P)
     \<and> (\<exists>cs. v_recent V = map (checkin_row env) cs \<and> prefix cs C \<and> length cs = min 3 (length C))
     \<and> prefix (map fst (v_active V)) A \<and> length (v_active V) = min 3 (length A)
     \<and> prefix (map fst (v_hotlines V)) (map hl_name H) \<and> length (v_hotlines V) = min 3 (length H)
     \<and> length (v_stats V) = 4"
proof -
  have act: "map fst (v_active (dashboard_view env ts))
      = take 3 (filter (\<lambda>b. status b \<noteq> Offline) (d_mockBuddies env))"
    by (simp add: dashboard_view_def activeBuddies_def buddy_row_def comp_def)
  have rec: "v_recent (dashboard_view env ts) = map (checkin_row env) (take 3 (d_mockCheckIns env))"
    by (simp add: dashboard_view_def recentCheckIns_def)
  have hl: "map fst (v_hotlines (dashboard_view env ts)) = take 3 (map hl_name (d_emergencyHotlines env))"
    by (simp add: dashboard_view_def comp_def take_map)
  have pend: "v_pending (dashboard_view env ts) = take 3 (filter (\<lambda>t. task_status t = ''pending'') ts)"
    by (simp add: dashboard_view_def pendingTasks_def)
  have la: "length (v_active (dashboard_view env ts))
      = length (take 3 (filter (\<lambda>b. status b \<noteq> Offline) (d_mockBuddies env)))"
    using arg_cong [OF act, of length] by simp
  have lh: "length (v_hotlines (dashboard_view env ts)) = length (take 3 (map hl_name (d_emergencyHotlines env)))"
    using arg_cong [OF hl, of length] by simp
  have st: "length (v_stats (dashboard_view env ts)) = 4"
    by (simp add: dashboard_view_def stats_def)
  show ?thesis
    unfolding Let_def pend act rec hl la lh st
    by (simp add: take_is_prefix min.commute)
       (rule exI [of _ "take 3 (d_mockCheckIns env)"], simp add: take_is_prefix min.commute)
qed

text \<open>C35: The Active Buddies statistic counts only the online buddies while the Active Buddies list shows every buddy that is not offline: the statistic never exceeds the number of buddies the list draws from, and equals it exactly when no buddy is away.\<close>

theorem active_stat_disagrees_with_list:
  "fst (stats env ts ! 0) = ''Active Buddies''
   \<and> snd (stats env ts ! 0) = int (length (filter (\<lambda>b. status b = Online) (d_mockBuddies env)))
   \<and> snd (stats env ts ! 0) \<le> int (length (filter (\<lambda>b. status b \<noteq> Offline) (d_mockBuddies env)))
   \<and> (snd (stats env ts ! 0) = int (length (filter (\<lambda>b. status b \<noteq> Offline) (d_mockBuddies env)))
        \<longleftrightarrow> list_all (\<lambda>b. status b \<noteq> Away) (d_mockBuddies env))"
  using online_le_not_offline [of "d_mockBuddies env"] online_eq_not_offline_iff [of "d_mockBuddies env"]
  by (simp add: stats_def)

section \<open>Witnesses\<close>

theorem active_stat_disagrees_with_list_witness:
  "snd (stats demo_env [] ! 0) = 1
   \<and> map fst (v_active (dashboard_view demo_env [])) = [demo_maria, demo_jose]
   \<and> snd (stats demo_env [] ! 0) \<noteq> int (length (map fst (v_active (dashboard_view demo_env []))))"
proof -
  have away: "\<not> list_all (\<lambda>b. status b \<noteq> Away) (d_mockBuddies demo_env)"
    by (simp add: demo_env_def demo_maria_def demo_jose_def)
  have two: "length (filter (\<lambda>b. status b \<noteq> Offline) (d_mockBuddies demo_env)) = 2"
    by (simp add: demo_env_def demo_maria_def demo_jose_def)
  have one: "length (filter (\<lambda>b. status b = Online) (d_mockBuddies demo_env)) = 1"
    by (simp add: demo_env_def demo_maria_def demo_jose_def)
  have list: "map fst (v_active (dashboard_view demo_env [])) = [demo_maria, demo_jose]"
    by (simp add: dashboard_view_def activeBuddies_def buddy_row_def demo_env_def
        demo_maria_def demo_jose_def)
  show ?thesis
    using active_stat_disagrees_with_list [of demo_env "[]"] away two one list by simp
qed

end
