(* ===== verification/Store.thy ===== *)
theory Store
  imports Data
begin

text \<open>
  The conversation store and delivery simulator of the specification (sections 4.1,
  4.2 and 7 of \<open>spec.md\<close>), which the chat page is meant to implement: a map from
  conversation ids to conversations, the scheduled replies (conversation id and due
  time, in scheduling order) and the clock. Commands fail with the specification's
  errors; a stale delivery is a no-op. The store is the abstract side of the
  refinement in \<open>Store_Refinement\<close>. Its invariant is the specification's first
  testable property: every unread count is the number of unread messages of the
  participant.
\<close>

section \<open>State and commands\<close>

record conv_store =
  convs :: "uid \<rightharpoonup> conversation"
  pending :: "(uid \<times> ms) list"
  now :: ms

datatype store_error = ValidationError | NotFoundError

text \<open>The delay of the delivery simulator, the one the page uses.\<close>

definition reply_delay :: ms where
  "reply_delay = 1500"

definition sendMessage :: "string \<Rightarrow> uid \<Rightarrow> uid \<Rightarrow> string \<Rightarrow> conv_store \<Rightarrow> store_error + conv_store" where
  "sendMessage mid cid author txt A =
     (if trim txt = [] then Inl ValidationError
      else case convs A cid of
        None \<Rightarrow> Inl NotFoundError
      | Some cv \<Rightarrow>
          Inr (A\<lparr>convs := (convs A)(cid \<mapsto>
                    cv\<lparr>conv_messages := conv_messages cv @
                          [\<lparr>msg_id = mid, senderId = author, content = txt,
                            timestamp = now A, read = True\<rparr>],
                        lastMessageAt := now A\<rparr>),
                 pending := pending A @ [(cid, now A + reply_delay)]\<rparr>))"

definition receiveMessage :: "string \<Rightarrow> uid \<Rightarrow> uid \<Rightarrow> string \<Rightarrow> conv_store \<Rightarrow> conv_store" where
  "receiveMessage mid cid sender txt A =
     (case convs A cid of
        None \<Rightarrow> A
      | Some cv \<Rightarrow>
          A\<lparr>convs := (convs A)(cid \<mapsto>
               cv\<lparr>conv_messages := conv_messages cv @
                     [\<lparr>msg_id = mid, senderId = sender, content = txt,
                       timestamp = now A, read = False\<rparr>],
                   lastMessageAt := now A,
                   unreadCount := Suc (unreadCount cv)\<rparr>)\<rparr>)"

text \<open>The earliest scheduled reply, once due, is received from the conversation's
  participant; \<open>None\<close>: nothing is due.\<close>

definition deliver :: "string \<Rightarrow> string \<Rightarrow> conv_store \<Rightarrow> conv_store option" where
  "deliver mid txt A =
     (case pending A of
        [] \<Rightarrow> None
      | (cid, d) # rest \<Rightarrow>
          if d \<le> now A
          then Some (let A' = A\<lparr>pending := rest\<rparr> in
                     case convs A cid of
                       None \<Rightarrow> A'
                     | Some cv \<Rightarrow> receiveMessage mid cid (participantId cv) txt A')
          else None)"

definition markConversationRead :: "uid \<Rightarrow> conv_store \<Rightarrow> store_error + conv_store" where
  "markConversationRead cid A =
     (case convs A cid of
        None \<Rightarrow> Inl NotFoundError
      | Some cv \<Rightarrow>
          Inr (A\<lparr>convs := (convs A)(cid \<mapsto>
                    cv\<lparr>conv_messages := map (\<lambda>m. m\<lparr>read := True\<rparr>) (conv_messages cv),
                        unreadCount := 0\<rparr>)\<rparr>))"

definition advance :: "nat \<Rightarrow> conv_store \<Rightarrow> conv_store" where
  "advance d A = A\<lparr>now := now A + d\<rparr>"

text \<open>The commands a presentation adapter issues; an error is reported to the caller
  and leaves the store as it was.\<close>

datatype store_cmd =
    CSend string uid uid string | CDeliver string string | CMarkRead uid | CAdvance nat | CNone

fun store_apply :: "store_cmd \<Rightarrow> conv_store \<Rightarrow> conv_store" where
  "store_apply (CSend mid cid u txt) A = (case sendMessage mid cid u txt A of Inl _ \<Rightarrow> A | Inr A' \<Rightarrow> A')"
| "store_apply (CDeliver mid txt) A = (case deliver mid txt A of None \<Rightarrow> A | Some A' \<Rightarrow> A')"
| "store_apply (CMarkRead cid) A = (case markConversationRead cid A of Inl _ \<Rightarrow> A | Inr A' \<Rightarrow> A')"
| "store_apply (CAdvance d) A = advance d A"
| "store_apply CNone A = A"

text \<open>A store seeded with conversations (loaded out of band), nothing scheduled.\<close>

definition store_of :: "conversation list \<Rightarrow> ms \<Rightarrow> conv_store" where
  "store_of cs t = \<lparr>convs = map_of (map (\<lambda>c. (conv_id c, c)) cs), pending = [], now = t\<rparr>"

section \<open>Invariant\<close>

definition unread_of :: "conversation \<Rightarrow> nat" where
  "unread_of cv = length (filter (\<lambda>m. senderId m = participantId cv \<and> \<not> read m) (conv_messages cv))"

definition store_inv :: "conv_store \<Rightarrow> bool" where
  "store_inv A \<longleftrightarrow> (\<forall>cv \<in> ran (convs A). unreadCount cv = unread_of cv)"

section \<open>Lemmas\<close>

lemma store_inv_upd:
  "store_inv A \<Longrightarrow> convs A' = (convs A)(cid \<mapsto> cv) \<Longrightarrow> unreadCount cv = unread_of cv \<Longrightarrow> store_inv A'"
  by (auto simp: store_inv_def ran_def)

lemma store_inv_same_convs [simp]:
  "store_inv (A\<lparr>pending := p\<rparr>) = store_inv A" "store_inv (A\<lparr>now := t\<rparr>) = store_inv A"
  by (simp_all add: store_inv_def)

lemma store_inv_lookup: "store_inv A \<Longrightarrow> convs A cid = Some cv \<Longrightarrow> unreadCount cv = unread_of cv"
  by (auto simp: store_inv_def ran_def)

lemma sendMessage_inv:
  assumes inv: "store_inv A" and ok: "sendMessage mid cid u txt A = Inr A'"
  shows "store_inv A'"
proof -
  from ok obtain cv where cv: "convs A cid = Some cv"
    and A': "A' = A\<lparr>convs := (convs A)(cid \<mapsto>
                    cv\<lparr>conv_messages := conv_messages cv @
                          [\<lparr>msg_id = mid, senderId = u, content = txt, timestamp = now A, read = True\<rparr>],
                        lastMessageAt := now A\<rparr>),
                 pending := pending A @ [(cid, now A + reply_delay)]\<rparr>"
    by (auto simp: sendMessage_def split: if_splits option.splits)
  show ?thesis
    by (rule store_inv_upd [OF inv]) (simp add: A', simp add: store_inv_lookup [OF inv cv, unfolded unread_of_def] unread_of_def)
qed

lemma receiveMessage_inv:
  assumes inv: "store_inv A" and cv: "convs A cid = Some cv"
  shows "store_inv (receiveMessage mid cid (participantId cv) txt A)"
  unfolding receiveMessage_def cv option.case
  by (rule store_inv_upd [OF inv]) (simp, simp add: store_inv_lookup [OF inv cv, unfolded unread_of_def] unread_of_def)

lemma deliver_inv: "store_inv A \<Longrightarrow> deliver mid txt A = Some A' \<Longrightarrow> store_inv A'"
  by (auto simp: deliver_def Let_def split: list.splits if_splits option.splits
           intro!: receiveMessage_inv [where A = "A\<lparr>pending := p\<rparr>" for p, simplified])

lemma markConversationRead_inv:
  assumes inv: "store_inv A" and ok: "markConversationRead cid A = Inr A'"
  shows "store_inv A'"
proof -
  from ok obtain cv where "convs A cid = Some cv"
    and A': "A' = A\<lparr>convs := (convs A)(cid \<mapsto>
                    cv\<lparr>conv_messages := map (\<lambda>m. m\<lparr>read := True\<rparr>) (conv_messages cv),
                        unreadCount := 0\<rparr>)\<rparr>"
    by (auto simp: markConversationRead_def split: option.splits)
  show ?thesis
    by (rule store_inv_upd [OF inv]) (simp add: A', simp add: unread_of_def filter_map comp_def)
qed

lemma store_apply_inv:
  assumes inv: "store_inv A"
  shows "store_inv (store_apply c A)"
proof (cases c)
  case (CSend mid cid u body)
  then show ?thesis
    using inv sendMessage_inv [OF inv, of mid cid u body] by (simp split: sum.split)
next
  case (CDeliver mid body)
  then show ?thesis
    using inv deliver_inv [OF inv, of mid body] by (simp split: option.split)
next
  case (CMarkRead cid)
  then show ?thesis
    using inv markConversationRead_inv [OF inv, of cid] by (simp split: sum.split)
qed (simp_all add: inv advance_def)

end
