(* ===== verification/Store_Refinement.thy ===== *)
theory Store_Refinement
  imports Chat Store
begin

text \<open>
  The chat page against the conversation store of the specification. While the page
  stays on one conversation, every page event is matched by the store command the
  page's adapter would issue: a send by \<open>sendMessage\<close> with the page's message id
  and the trimmed input, a firing callback by \<open>deliver\<close> with the page's reply id
  and reply text, a tick by \<open>advance\<close>, and every other event by no command. The
  simulation relation \<open>store_rel\<close> says that the page's view is the store's log of
  the conversation, that the page's pending callbacks are the store's scheduled
  replies (all for that conversation) and that both clocks agree. Unread counts and
  \<open>lastMessageAt\<close>, which the page never maintains, are not related. Switching to
  another conversation is not covered: it breaks the relation, since the page
  drops what it showed and a pending reply still lands in the newly selected view.
\<close>

section \<open>Simulation relation and adapter\<close>

definition store_rel :: "uid \<Rightarrow> chat_state \<Rightarrow> conv_store \<Rightarrow> bool" where
  "store_rel cid s A \<longleftrightarrow>
     (case selectedConversation s of
        None \<Rightarrow> False
      | Some conv \<Rightarrow>
          conv_id conv = cid
          \<and> (case convs A cid of
               None \<Rightarrow> False
             | Some cv \<Rightarrow> participantId cv = participantId conv \<and> messages s = conv_messages cv)
          \<and> pending A = map (\<lambda>tm. (cid, due tm)) (timers s)
          \<and> list_all (\<lambda>tm. reply_to tm = participantId conv) (timers s))
     \<and> clock s = now A"

fun page_command :: "uid \<Rightarrow> chat_state \<Rightarrow> chat_event \<Rightarrow> store_cmd" where
  "page_command cid s Send =
     (case user s of
        None \<Rightarrow> CNone
      | Some u \<Rightarrow> CSend (''msg-'' @ string_of_nat (clock s)) cid u (trim (newMessage s)))"
| "page_command cid s (Fire k) =
     CDeliver (''msg-'' @ string_of_nat (clock s) @ ''-reply'') (getRandomReply k)"
| "page_command cid s (Tick d) = CAdvance d"
| "page_command cid s e = CNone"

text \<open>The events that keep the page on its conversation: all but selecting another
  one.\<close>

fun stays_on :: "chat_state \<Rightarrow> chat_event \<Rightarrow> bool" where
  "stays_on s (Select c) = (selectedConversation s = Some c)"
| "stays_on s e = True"

text \<open>A run of page events that stays on the conversation, and the commands the
  adapter issues along it.\<close>

fun stays_on_run :: "chat_state \<Rightarrow> chat_event list \<Rightarrow> bool" where
  "stays_on_run s [] = True"
| "stays_on_run s (e # es) = (stays_on s e \<and> stays_on_run (chat_next s e) es)"

fun page_commands :: "uid \<Rightarrow> chat_state \<Rightarrow> chat_event list \<Rightarrow> store_cmd list" where
  "page_commands cid s [] = []"
| "page_commands cid s (e # es) = page_command cid s e # page_commands cid (chat_next s e) es"

section \<open>Scenario data\<close>

definition demo_store :: conv_store where
  "demo_store = store_of [demo_c1, demo_c2] 0"

definition demo_page :: chat_state where
  "demo_page = setNewMessage ''Kumusta?'' (handleSelectConversation demo_c1 (demo_start 0))"


section \<open>Lemmas\<close>

lemma store_rel_ui:
  "store_rel cid s A \<Longrightarrow> store_rel cid (setSearchQuery q s) A"
  "store_rel cid s A \<Longrightarrow> store_rel cid (setNewMessage x s) A"
  "store_rel cid s A \<Longrightarrow> store_rel cid (handleBack s) A"
  "store_rel cid s A \<Longrightarrow> store_rel cid (advance_clock d s) (advance d A)"
  by (simp_all add: store_rel_def setSearchQuery_def setNewMessage_def handleBack_def
      advance_clock_def advance_def split: option.splits)

lemma store_rel_reselect:
  "store_rel cid s A \<Longrightarrow> selectedConversation s = Some c \<Longrightarrow> store_rel cid (handleSelectConversation c s) A"
  by (simp add: store_rel_def handleSelectConversation_def split: option.splits)

lemma store_relE:
  assumes "store_rel cid s A"
  obtains conv cv where "selectedConversation s = Some conv" and "conv_id conv = cid"
    and "convs A cid = Some cv" and "participantId cv = participantId conv"
    and "messages s = conv_messages cv"
    and "pending A = map (\<lambda>tm. (cid, due tm)) (timers s)"
    and "list_all (\<lambda>tm. reply_to tm = participantId conv) (timers s)"
    and "clock s = now A"
  using assms by (auto simp: store_rel_def split: option.splits)

lemma store_rel_send:
  assumes rel: "store_rel cid s A"
  shows "store_rel cid (chat_next s Send) (store_apply (page_command cid s Send) A)"
proof (cases "user s")
  case None
  then show ?thesis using rel by (simp add: chat_next_def handleSendMessage_def split: if_splits option.splits)
next
  case (Some u)
  from rel obtain conv cv where facts: "selectedConversation s = Some conv" "conv_id conv = cid"
    "convs A cid = Some cv" "participantId cv = participantId conv" "messages s = conv_messages cv"
    "pending A = map (\<lambda>tm. (cid, due tm)) (timers s)"
    "list_all (\<lambda>tm. reply_to tm = participantId conv) (timers s)" "clock s = now A"
    by (rule store_relE)
  show ?thesis
  proof (cases "trim (newMessage s) = []")
    case True
    with Some rel show ?thesis by (simp add: chat_next_def handleSendMessage_def sendMessage_def)
  next
    case False
    with Some facts show ?thesis
      by (simp add: chat_next_def handleSendMessage_def sendMessage_def store_rel_def
          sent_message_def reply_delay_def)
  qed
qed

lemma store_rel_select:
  assumes "distinct (map conv_id (mockConversations s))" and "conv \<in> set (mockConversations s)"
    and "timers s = []" and "selectedConversation s \<noteq> Some conv"
  shows "store_rel (conv_id conv) (handleSelectConversation conv s) (store_of (mockConversations s) (clock s))"
proof -
  have "map_of (map (\<lambda>c. (conv_id c, c)) (mockConversations s)) (conv_id conv) = Some conv"
    using assms(1,2) by (intro map_of_is_SomeI) (auto simp: comp_def)
  with assms(3,4) show ?thesis
    by (simp add: store_rel_def handleSelectConversation_def sync_messages_effect_def store_of_def)
qed

text \<open>C10: While the chat page stays on one conversation, it implements the specification's conversation store: along any run of page events that does not switch conversation, each event is matched by the store command the page's adapter issues, and afterwards the page still shows exactly the store's log of that conversation and holds exactly its scheduled replies.\<close>

theorem page_refines_store:
  assumes "store_rel cid s A" and "stays_on_run s es"
  shows "store_rel cid (chat_run s es) (fold store_apply (page_commands cid s es) A)"
  using assms
proof (induction es arbitrary: s A)
  case Nil
  then show ?case by simp
next
  case (Cons e es)
  note rel = Cons.prems(1)
  have step: "store_rel cid (chat_next s e) (store_apply (page_command cid s e) A)"
  proof (cases e)
    case Send
    then show ?thesis using store_rel_send [OF rel] by simp
  next
    case (Fire k)
    from rel obtain conv cv where facts: "selectedConversation s = Some conv" "conv_id conv = cid"
      "convs A cid = Some cv" "participantId cv = participantId conv" "messages s = conv_messages cv"
      "pending A = map (\<lambda>tm. (cid, due tm)) (timers s)"
      "list_all (\<lambda>tm. reply_to tm = participantId conv) (timers s)" "clock s = now A"
      by (rule store_relE)
    show ?thesis
    proof (cases "timers s")
      case Nil
      with rel facts Fire show ?thesis by (simp add: chat_next_def fire_timer_def deliver_def)
    next
      case (Cons tm rest)
      with rel facts Fire show ?thesis
        by (cases "due tm \<le> clock s")
           (simp_all add: chat_next_def fire_timer_def deliver_def receiveMessage_def store_rel_def
              reply_message_def)
    qed
  qed (insert Cons.prems, simp_all add: chat_next_def store_rel_ui store_rel_reselect)
  with Cons.IH Cons.prems(2) show ?case by simp
qed

section \<open>Witnesses\<close>

theorem page_refines_store_witness:
  "store_rel ''C1'' demo_page demo_store \<and> stays_on_run demo_page [Send, Tick 1500, Fire 0]
   \<and> store_rel ''C1'' (chat_run demo_page [Send, Tick 1500, Fire 0])
         (fold store_apply (page_commands ''C1'' demo_page [Send, Tick 1500, Fire 0]) demo_store)"
proof -
  have rel: "store_rel ''C1'' demo_page demo_store"
    by (simp add: store_rel_def demo_page_def demo_store_def store_of_def setNewMessage_def
        handleSelectConversation_def sync_messages_effect_def demo_start_def chat_init_def demo_c1_def)
  have run: "stays_on_run demo_page [Send, Tick 1500, Fire 0]" by simp
  show ?thesis using rel run page_refines_store [OF rel run] by simp
qed

end
