(* ===== verification/Spec2Isabelle.thy ===== *)
theory Spec2Isabelle
  imports Chat Notifications Api Buddies Dashboard Store_Refinement
begin

text \<open>
  \<^bold>\<open>SafeZonePH: a verification development of the messaging and notification core.\<close>

  The repository is a React front end. Its stateful core is the chat page
  (\<open>src/pages/ChatPage.tsx\<close>): a conversation list filtered by a search box, a
  selected conversation whose log is copied into the page state, a send handler that
  appends the user's message and schedules a simulated reply with \<open>setTimeout\<close>,
  and the notification context (\<open>src/context/NotificationContext.tsx\<close>), an
  independent newest-first feed with read flags. The rest of the sources are the API
  client (\<open>src/services/api.ts\<close>) and two presentation pages
  (\<open>src/pages/BuddiesPage.tsx\<close>, \<open>src/pages/DashboardPage.tsx\<close>).

  \<^bold>\<open>Theories.\<close>
  \<^item> \<open>Prelude\<close>: clock and id types; the JavaScript string primitives the pages
    call, on byte strings: \<open>trim\<close>, \<open>to_lower\<close> (ASCII \<open>toLowerCase\<close>),
    \<open>str_includes\<close> (\<open>String.prototype.includes\<close>, proved equal to the
    library's \<open>sublist\<close>), and \<open>string_of_nat\<close> (\<open>Number.prototype.toString\<close>)
    with its parser \<open>nat_of_string\<close> and the round trip between them (used to
    show that distinct clocks give distinct ids).
  \<^item> \<open>Data\<close>: the records of \<open>src/types\<close> (not among the sources; the fields
    are those the pages use): \<open>message\<close>, \<open>conversation\<close>, \<open>buddy\<close>,
    \<open>notification\<close>.
  \<^item> \<open>Chat\<close>: \<open>ChatPage\<close>. The record \<open>chat_state\<close> holds the page's
    \<open>useState\<close> hooks, the signed-in user's id, the static mock conversations and
    buddies, the pending \<open>setTimeout\<close> callbacks (\<open>timers\<close>: due time and the
    participant id the closure captured) and the clock of \<open>Date.now()\<close>. One
    definition per handler: \<open>filteredConversations\<close> (lines 21--24),
    \<open>handleSelectConversation\<close> with the effect \<open>sync_messages_effect\<close>
    (26--39), \<open>handleSendMessage\<close> (41--67, the \<open>user!.id\<close> exception as
    \<open>Inl NullUser\<close>), the callback \<open>fire_timer\<close> (57--66) with
    \<open>getRandomReply\<close> (69--80), and the right-hand pane \<open>chat_pane\<close> (the
    selected conversation with its log and send button, or the empty state).
    \<open>message_wf\<close> is the message type of the specification (non-empty id and
    trimmed, non-empty content), required of the mock data and kept by the page. \<open>chat_handle\<close> dispatches the page events,
    \<open>chat_run\<close> runs a sequence of them and \<open>chat_reach\<close> is the inductive set
    of reachable states, starting from well-formed mock data.

  \<^item> \<open>Notifications\<close>: \<open>NotificationProvider\<close>. The feed is a list, newest
    first; \<open>addNotification\<close>, \<open>markAsRead\<close>, \<open>markAllAsRead\<close> and
    \<open>clearNotification\<close> (lines 21--43) are the functions the code passes to
    \<open>setNotifications\<close>, \<open>notif_unreadCount\<close> the derived count (line 19),
    \<open>useNotifications\<close> the guard that throws outside the provider (59--65).
    \<open>notif_step\<close> dispatches the updaters, \<open>notif_reach\<close> is the set of feeds the
    provider can hold, and \<open>evolves\<close> relates a feed to a later one in which nothing
    was created (a subsequence whose read flags only went from false to true).
  \<^item> \<open>Api\<close>: \<open>ApiService\<close>. JavaScript values (\<open>jsval\<close>) with their
    truthiness and \<open>||\<close>; \<open>handleResponse\<close> and its error extraction
    \<open>error_message\<close> (lines 27--44); the token and its \<open>localStorage\<close> mirror
    (\<open>new_ApiService\<close>, \<open>setToken\<close>, \<open>clearToken\<close>, 11--54);
    \<open>getHeaders\<close> (15--25); the route of every endpoint method, grouped as the class
    groups them (\<open>auth_route\<close> \<dots> \<open>community_route\<close>, 56--267), and the request
    each sends (\<open>build_request\<close>), whose body is the text \<open>json_stringify\<close>
    gives the payload (\<open>JSON.stringify\<close> on the values of \<open>jsval\<close>: members set
    to \<open>undefined\<close> dropped from objects, \<open>null\<close> in arrays, strings quoted and
    escaped). \<open>JSON.parse\<close> is a parameter of the model and
    \<open>fetch\<close> a function from requests to responses, so the results hold for every
    parser and every server.
  \<^item> \<open>Buddies\<close>: \<open>BuddiesPage\<close>. The page state (search, status filter,
    selected buddy, the two modals, the check-in draft \<open>checkInData\<close> and the
    \<open>window.alert\<close> messages), \<open>filteredBuddies\<close> (lines 22--27) and one
    definition per handler (\<open>handleCheckIn\<close>, \<open>handleViewProfile\<close>,
    \<open>handleSubmitCheckIn\<close>, the form's setters, the modal closers, the profile's
    Check In button), and what the profile modal shows (\<open>profile_view\<close>,
    \<open>profile_actions\<close>);
    \<open>buddies_reach\<close> are the reachable page states, assuming an open modal covers
    the page.
  \<^item> \<open>Dashboard\<close>: \<open>DashboardPage\<close>. The environment the page reads
    (\<open>dashboard_env\<close>: the user, the mock data, the ISO date and the helpers of
    \<open>src/utils/helpers\<close>), the shared task store and the effect that seeds it
    (\<open>init_tasks_effect\<close>, lines 17--22), whose re-runs are the loop
    \<open>settle_tasks\<close> (\<open>partial_function (option)\<close>: \<open>None\<close> is a page that
    never stops re-rendering), the derived values (\<open>stats\<close>, \<open>pendingTasks\<close>,
    \<open>recentCheckIns\<close>, \<open>activeBuddies\<close>, \<open>rankProgress\<close>, lines 24--35) and the
    data of each section of the render (\<open>dashboard_view\<close>, \<open>checkin_row\<close>,
    \<open>buddy_row\<close>, \<open>hotline_href\<close>, \<open>pending_section\<close> with its
    All tasks completed note, \<open>quick_actions\<close>); \<open>dashboard_mount\<close> is mounting: the
    settled store and the view rendered from it.
  \<^item> \<open>Store\<close>: the conversation store and delivery simulator of the specification
    (sections 4.1, 4.2 and 7 of \<open>spec.md\<close>); no source file implements them. A map
    from conversation ids to conversations, the scheduled replies and a clock;
    \<open>sendMessage\<close>, \<open>receiveMessage\<close>, \<open>deliver\<close>,
    \<open>markConversationRead\<close> with the specification's errors; the invariant that
    every unread count is the number of the participant's unread messages, preserved
    by every command.
  \<^item> \<open>Store_Refinement\<close>: the chat page as an implementation of that store: the
    simulation relation \<open>store_rel\<close> and the command \<open>page_command\<close> the page's
    adapter issues for each event.
  \<^item> \<open>Spec2Isabelle\<close> (this theory): the application state pairing the chat page
    and the notification feed over one clock (\<open>app_next\<close>, \<open>app_reach\<close>), and
    the properties that span components.

  \<^bold>\<open>What is proved.\<close> For the chat page: the functional behaviour of sending on each
  branch (success, no-op guard, thrown error); that every message of every reachable
  state has the message type of the specification; that a conversation whose
  participant is not a known buddy is never listed, even for the empty search (the
  specification lists every conversation); the invariant that the view is
  chronological and pending replies are FIFO and due within 1500 ms; delivery of every
  pending reply after 1500 ms (a liveness statement proved for all reachable states);
  that the conversation store is never written (so unread counts never move, against
  the specification); that a due reply is appended, authored by the participant
  captured at send time, to the view of whichever conversation is selected when it
  fires; that switching away and back reloads the stored log, so every sent message
  disappears; and that two replies run in the same millisecond carry the same id.
  For the notification context: the effect of each updater on the feed and its unread
  count (including the benign no-ops on absent ids), the newest-first invariant, that
  runs without additions only delete and raise read flags (\<open>evolves\<close> is proved
  transitive), and that ids collide within a millisecond. For the application (a
  lemma, not a property): both invariants hold together over the shared clock. For
  the API client: a failed response always yields a truthy error, unparsable and
  \<open>null\<close> bodies
  fall back to the text, the error can be a non-string, a successful non-JSON body
  throws, the token stays in step with \<open>localStorage\<close> and survives reloads, the
  Authorization header is sent exactly for a non-empty token, and two calls send the
  same request exactly when they call the same method with the same ids and their
  payloads stringify alike (so a member set to \<open>undefined\<close> is the same request
  as a missing one). For the buddies page: an open check-in modal always has a
  selected buddy; a submitted check-in does not depend on the form at all; and
  cancelling keeps the draft for the next check-in on any buddy, while submitting
  resets it; the search and status filter list
  what their controls say (every buddy for the empty search and all, exactly one
  status for a status, nothing for any other value); and of the profile modal's
  actions only Check In has a handler. For the dashboard: mounting
  terminates (the seeding effect re-runs at most twice) with the store seeded exactly
  when it was empty; every list it shows is the first at most three entries of its
  data, filtered as its heading says; and the Active Buddies figure counts only online
  buddies, so it equals the number of buddies its list draws from exactly when none is
  away.
  For the specification's conversation store: along every run of page events that
  does not switch conversation, the page refines the store (a forward simulation,
  each event matched by the command of the page's adapter, lifted from steps to
  runs by induction), so the page shows exactly the store's log of the selected
  conversation.

  \<^bold>\<open>Choices.\<close> The clock is a natural number of milliseconds advanced by explicit
  \<open>Tick\<close> events; all reads of \<open>Date.now()\<close> inside one handler see the same
  value. \<open>Math.random()\<close> is the reply index drawn by the step. The React effect on
  the selection runs atomically with the click that changes it. Strings are UTF-8 byte
  lists; \<open>trim\<close> and \<open>toLowerCase\<close> are modelled on ASCII (JavaScript also
  trims Unicode spaces such as U+00A0 and lowercases non-ASCII letters; the mock data
  and the tested inputs are ASCII), and \<open>json_stringify\<close> escapes as
  \<open>JSON.stringify\<close> does on byte strings. JavaScript numbers
  are integers in \<open>jsval\<close> and natural numbers as endpoint ids. No fuel or bound is
  needed: every loop of the sources is a \<open>map\<close> or \<open>filter\<close> over a list and
  every recursion of the model is structural, except the re-runs of the dashboard's
  effect, which are a \<open>partial_function (option)\<close> proved to return.

  \<^bold>\<open>Not modelled.\<close> Rendering (JSX, styling, scrolling), \<open>AuthContext\<close>, the
  mock data and helper modules that are not among the sources (they enter as
  parameters), \<open>JSON.parse\<close> (a parameter), non-integer numbers and the
  \<open>toJSON\<close> hooks of \<open>JSON.stringify\<close>. The task store \<open>useTasksStore\<close> of
  \<open>src/store\<close> is not among the sources: it is a list of tasks that only the
  dashboard's effect writes. The unmount of the chat page: React discards the page
  state, and the \<open>setTimeout\<close> callbacks still pending run later and call
  \<open>setMessages\<close> on the unmounted component, which React ignores; a remounted page
  starts from \<open>chat_init\<close>, so the only trace is the missing cancellation the
  specification requires (recorded as a finding), not an observable state. The
  scrolling effect of \<open>ChatPage\<close> (lines 31--33) and the static headings of the
  pages are presentation.

  \<^bold>\<open>Plan.\<close> What is left is outside the sources: \<open>src/types\<close>,
  \<open>src/data/mockData\<close>, \<open>src/store\<close>, \<open>src/utils/helpers\<close>, \<open>AuthContext\<close> and
  the layout components. With them, the record fields assumed here and the helpers
  kept as parameters (\<open>getRankProgress\<close>, \<open>getMoodEmoji\<close>) could be modelled from
  their code.
\<close>


section \<open>The application: chat page and notification context together\<close>

text \<open>The notification provider wraps the pages; the two components share only the
  clock of \<open>Date.now()\<close>. An application event is a page event or a call of one of
  the context's updaters.\<close>

record 'p app_state =
  chat :: chat_state
  feed :: "'p feed"

datatype 'p app_event = ChatEv chat_event | NotifEv "'p notif_event"

fun app_next :: "'p app_state \<Rightarrow> 'p app_event \<Rightarrow> 'p app_state" where
  "app_next s (ChatEv e) = s\<lparr>chat := chat_next (chat s) e\<rparr>"
| "app_next s (NotifEv e) = s\<lparr>feed := notif_step (clock (chat s)) (feed s) e\<rparr>"

fun app_enabled :: "'p app_state \<Rightarrow> 'p app_event \<Rightarrow> bool" where
  "app_enabled s (ChatEv e) = chat_enabled (chat s) e"
| "app_enabled s (NotifEv e) = True"

fun app_run :: "'p app_state \<Rightarrow> 'p app_event list \<Rightarrow> 'p app_state" where
  "app_run s [] = s"
| "app_run s (e # es) = app_run (app_next s e) es"

definition app_inv :: "'p app_state \<Rightarrow> bool" where
  "app_inv s \<longleftrightarrow> chat_inv (chat s) \<and> newest_first (feed s) (clock (chat s))"

inductive app_reach :: "'p app_state \<Rightarrow> bool" where
  init: "mock_ok cs t \<Longrightarrow> newest_first ns t \<Longrightarrow> app_reach \<lparr>chat = chat_init u cs bs t, feed = ns\<rparr>"
| step: "app_reach s \<Longrightarrow> app_enabled s e \<Longrightarrow> app_reach (app_next s e)"

section \<open>Cross-component properties\<close>

lemma app_next_inv: "app_inv s \<Longrightarrow> app_enabled s e \<Longrightarrow> app_inv (app_next s e)"
proof (cases e)
  case (ChatEv ce)
  assume "app_inv s" and "app_enabled s e"
  with ChatEv show ?thesis
    by (auto simp: app_inv_def intro: chat_next_inv newest_first_mono chat_next_clock_mono)
next
  case (NotifEv ne)
  assume "app_inv s"
  with NotifEv show ?thesis
    by (auto simp: app_inv_def intro: newest_first_step)
qed

text \<open>Both components' invariants hold together over the shared clock, although page
  events (not the context) advance it.\<close>

lemma app_invariant: "app_reach s \<Longrightarrow> app_inv s"
proof (induction rule: app_reach.induct)
  case (init cs t ns u bs)
  from \<open>mock_ok cs t\<close> have "chat_inv (chat_init u cs bs t)" by (rule chat_init_inv)
  with init show ?case by (simp add: app_inv_def chat_init_def)
next
  case (step s e)
  then show ?case by (blast intro: app_next_inv)
qed

end
